theory Spec2Isabelle
  imports Complex_Main "HOL-Library.Word" "HOL-Library.Signed_Division"
begin

section \<open>The forward entry point of the fused attention extension\<close>

text \<open>
  This theory embeds \<^verbatim>\<open>csrc/stream_attn/fmha_api.cpp\<close>: the functions
  \<^verbatim>\<open>set_params\<close> and \<^verbatim>\<open>mha_fwd\<close>. Both are host code; the device
  kernel they configure and launch lives in other files.

  Conventions of the embedding:
  \<^item> A C \<^verbatim>\<open>int\<close> is an \<open>int\<close> that every operation brings back into the
    32-bit two's complement range with \<open>int32\<close>; \<^verbatim>\<open>size_t\<close> arithmetic is done
    modulo \<open>2 ^ 64\<close>. The C division \<^verbatim>\<open>/\<close> truncates towards zero
    (\<open>sdiv\<close>).
  \<^item> Fixed-width unsigned fields that are only stored, never computed with, are
    words (\<open>32 word\<close>, \<open>16 word\<close>, \<open>64 word\<close>).
  \<^item> A finite \<^verbatim>\<open>float\<close> or \<^verbatim>\<open>double\<close> is the real number it denotes.
    Each floating point operation rounds its exact result; the two rounding
    operators are parameters (\<open>round_float\<close>, \<open>round_double\<close>). Infinities
    and NaN are not represented, so the model speaks about calls whose
    floating point arguments are finite.
  \<^item> A \<^verbatim>\<open>TORCH_CHECK\<close> that fails is a value \<open>Inl\<close>, one constructor of
    \<open>error\<close> per check; the code after it is not run. A failure of
    \<^verbatim>\<open>mha_fwd\<close> carries the events the call had performed when it failed.
  \<^item> What the host code does to the device and to the generator is recorded in
    order, as a list of events.
\<close>

subsection \<open>Machine integers\<close>

definition int32 :: "int \<Rightarrow> int" where
  "int32 x = (x + 2 ^ 31) mod 2 ^ 32 - 2 ^ 31"

definition size_t :: "int \<Rightarrow> int" where
  "size_t x = x mod 2 ^ 64"

subsection \<open>Tensors, device properties, generators\<close>

datatype ScalarType = kHalf | kBFloat16 | kFloat | kInt

text \<open>The buffers the code passes around by device pointer.\<close>

datatype ptr = QKV | CU_SEQLENS | CTX | CTX2 | O_TMP | O2_TMP | SOFTMAX_LSE | S_PTR

text \<open>
  What a tensor's memory holds, as far as the host code determines it:
  \<^verbatim>\<open>torch::empty\<close> leaves it uninitialised, \<^verbatim>\<open>zero_()\<close> and
  \<^verbatim>\<open>fill_(-inf)\<close> overwrite it. \<open>Ints\<close> is the contents of an integer tensor
  such as the offsets; \<open>Opaque\<close> is any other data.
\<close>

datatype storage = Uninit | Zeros | NegInfs | Ints "int list" | Opaque

record Tensor =
  sizes :: "int list"
  dtype :: ScalarType
  is_cuda :: bool
  is_contiguous :: bool
  data_ptr :: ptr
  storage :: storage

definition dim :: "Tensor \<Rightarrow> nat" where
  "dim t = length (sizes t)"

definition numel :: "Tensor \<Rightarrow> int" where
  "numel t = prod_list (sizes t)"

definition empty_tensor :: "int list \<Rightarrow> ScalarType \<Rightarrow> ptr \<Rightarrow> Tensor" where
  "empty_tensor shape dt p =
     \<lparr>sizes = shape, dtype = dt, is_cuda = True, is_contiguous = True,
      data_ptr = p, storage = Uninit\<rparr>"

definition zero_fill :: "Tensor \<Rightarrow> Tensor" where
  "zero_fill t = t\<lparr>storage := Zeros\<rparr>"

definition fill_neg_inf :: "Tensor \<Rightarrow> Tensor" where
  "fill_neg_inf t = t\<lparr>storage := NegInfs\<rparr>"

record cudaDeviceProp =
  major :: int
  minor :: int

record CUDAGeneratorImpl =
  seed :: "64 word"
  philox_offset_per_thread :: "64 word"

record PhiloxCudaState =
  philox_seed :: "64 word"
  philox_offset :: "64 word"

subsection \<open>Kernel parameters\<close>

datatype Data_type = DATA_TYPE_FP16 | DATA_TYPE_FP32

text \<open>
  The fields of \<^verbatim>\<open>Fused_multihead_attention_fprop_params\<close> that the code
  assigns. The struct is declared in \<^verbatim>\<open>fmha.h\<close>; the fields \<^verbatim>\<open>b\<close>,
  \<^verbatim>\<open>h\<close>, \<^verbatim>\<open>s\<close>, \<^verbatim>\<open>d\<close>, \<^verbatim>\<open>p_dropout\<close> and \<^verbatim>\<open>is_causal\<close> carry
  the prefix \<open>params_\<close> here. A null pointer is \<open>None\<close>.
\<close>

record Fused_multihead_attention_fprop_params =
  qkv_ptr :: "ptr option"
  qkv_stride_in_elts :: int
  qkv_stride_in_bytes :: int
  o_ptr :: "ptr option"
  o2_ptr :: "ptr option"
  o_stride_in_elts :: int
  o_stride_in_bytes :: int
  do_ptr :: "ptr option"
  o_tmp_ptr :: "ptr option"
  o2_tmp_ptr :: "ptr option"
  cu_seqlens_ptr :: "ptr option"
  s_ptr :: "ptr option"
  s_stride_in_bytes :: int
  softmax_lse_ptr :: "ptr option"
  dsoftmax_sum :: "ptr option"
  params_b :: int
  params_h :: int
  params_s :: int
  params_d :: int
  scale_bmm1f :: real
  scale_bmm1 :: "32 word"
  scale_softmax :: "32 word"
  scale_bmm2 :: "32 word"
  params_p_dropout :: real
  p_dropout_in_uint :: "32 word"
  p_dropout_in_uint16_t :: "16 word"
  rp_dropout :: real
  scale_dropout :: "32 word"
  philox_args :: PhiloxCudaState
  params_is_causal :: bool

record Launch_params =
  elts_per_thread :: "64 word"
  props :: cudaDeviceProp
  lp_is_dropout :: bool
  lp_return_softmax :: bool
  params :: Fused_multihead_attention_fprop_params

text \<open>
  What the file uses and does not define. \<^verbatim>\<open>get_size_in_bytes\<close>,
  \<^verbatim>\<open>set_alpha\<close> (which encodes a scale in the given precision) and
  \<^verbatim>\<open>run_fmha_fp16_sm80\<close> are declared in headers of the repository;
  \<^verbatim>\<open>philox_cuda_state\<close> is the generator's method that hands out the current
  counter offset and advances it. \<open>run_fmha_fp16_sm80 env lp True\<close> is the
  launch parameters as the configure pass leaves them. All are parameters of
  the model, together with the two rounding operators.
\<close>

record env =
  get_size_in_bytes :: "int \<Rightarrow> Data_type \<Rightarrow> int"
  set_alpha :: "real \<Rightarrow> Data_type \<Rightarrow> 32 word"
  run_fmha_fp16_sm80 :: "Launch_params \<Rightarrow> bool \<Rightarrow> Launch_params"
  philox_cuda_state :: "CUDAGeneratorImpl \<Rightarrow> 64 word \<Rightarrow> PhiloxCudaState \<times> CUDAGeneratorImpl"
  round_float :: "real \<Rightarrow> real"
  round_double :: "real \<Rightarrow> real"

datatype error =
    DeviceCapabilityUnsupported
  | NotCuda
  | NotContiguous
  | BadRank
  | BadPackedCount
  | InvalidBatchLayout
  | UnsupportedHeadDim
  | InvalidDropoutProbability

subsection \<open>\<^verbatim>\<open>set_params\<close>\<close>

text \<open>
  The \<^verbatim>\<open>memset\<close> clears the whole struct, so \<^verbatim>\<open>philox_args\<close>, which
  \<^verbatim>\<open>set_params\<close> does not assign, is zero afterwards. The check of
  \<^verbatim>\<open>p_dropout < 1.f\<close> stands after the thresholds and the rescale factor are
  computed and before \<^verbatim>\<open>scale_dropout\<close> and \<^verbatim>\<open>is_causal\<close> are set; when
  it fails the parameters are lost with the exception.
\<close>

definition set_params ::
  "env \<Rightarrow> int \<Rightarrow> int \<Rightarrow> int \<Rightarrow> int \<Rightarrow>
   ptr option \<Rightarrow> ptr option \<Rightarrow> ptr option \<Rightarrow> ptr option \<Rightarrow> ptr option \<Rightarrow>
   ptr option \<Rightarrow> ptr option \<Rightarrow> ptr option \<Rightarrow>
   real \<Rightarrow> real \<Rightarrow> bool \<Rightarrow> ptr option \<Rightarrow> ptr option \<Rightarrow>
   error + Fused_multihead_attention_fprop_params" where
  "set_params env b s h d qkv_packed_d cu_seqlens_d o_packed_d o_tmp_d do_packed_d
       s_d softmax_lse_d dsoftmax_sum_d p_dropout softmax_scale is_causal
       o2_tmp_d o2_packed_d =
    (let acc_type = DATA_TYPE_FP32;
         data_type = DATA_TYPE_FP16;
         keep = round_float env (1 - p_dropout);
         ps = \<lparr>qkv_ptr = qkv_packed_d,
               qkv_stride_in_elts = size_t (h * 4 * d),
               qkv_stride_in_bytes = get_size_in_bytes env (size_t (h * 4 * d)) data_type,
               o_ptr = o_packed_d,
               o2_ptr = o2_packed_d,
               o_stride_in_elts = size_t (h * d),
               o_stride_in_bytes = get_size_in_bytes env (size_t (h * d)) data_type,
               do_ptr = do_packed_d,
               o_tmp_ptr = o_tmp_d,
               o2_tmp_ptr = o2_tmp_d,
               cu_seqlens_ptr = cu_seqlens_d,
               s_ptr = s_d,
               s_stride_in_bytes = get_size_in_bytes env (size_t (b * h * s)) data_type,
               softmax_lse_ptr = softmax_lse_d,
               dsoftmax_sum = dsoftmax_sum_d,
               params_b = b,
               params_h = h,
               params_s = s,
               params_d = d,
               scale_bmm1f = softmax_scale,
               scale_bmm1 = set_alpha env softmax_scale data_type,
               scale_softmax = set_alpha env 1 acc_type,
               scale_bmm2 = set_alpha env 1 data_type,
               params_p_dropout = keep,
               p_dropout_in_uint = word_of_int \<lfloor>round_double env (keep * 4294967295)\<rfloor>,
               p_dropout_in_uint16_t = word_of_int \<lfloor>round_double env (keep * 65535)\<rfloor>,
               rp_dropout = round_float env (1 / keep),
               scale_dropout = 0,
               philox_args = \<lparr>philox_seed = 0, philox_offset = 0\<rparr>,
               params_is_causal = False\<rparr>
     in if \<not> p_dropout < 1 then Inl InvalidDropoutProbability
        else Inr (ps\<lparr>scale_dropout := set_alpha env (rp_dropout ps) data_type,
                      params_is_causal := is_causal\<rparr>))"

subsection \<open>\<^verbatim>\<open>mha_fwd\<close>\<close>

text \<open>
  Modelled from the spec: the axis indices \<^verbatim>\<open>TOTAL_DIM\<close>, \<^verbatim>\<open>H_DIM\<close>,
  \<^verbatim>\<open>THREE_DIM\<close> and \<^verbatim>\<open>D_DIM\<close> are constants of \<^verbatim>\<open>fmha.h\<close>. The packed
  buffer is shaped \<^verbatim>\<open>[total_tokens, num_heads, 3_or_4, head_dim]\<close>, the count of
  packed vectors being its third axis (the comment on the argument in the
  source says \<^verbatim>\<open>total x num_heads x 4 x head_size\<close>).
\<close>

definition TOTAL_DIM :: nat where "TOTAL_DIM = 0"
definition H_DIM :: nat where "H_DIM = 1"
definition THREE_DIM :: nat where "THREE_DIM = 2"
definition D_DIM :: nat where "D_DIM = 3"

text \<open>The planner: lines 150 to 160 of the source.\<close>

definition plan_base_N :: "int \<Rightarrow> int" where
  "plan_base_N head_size = (if head_size = 128 then 128 else 256)"

definition plan_seq_len :: "int \<Rightarrow> int \<Rightarrow> int" where
  "plan_seq_len max_seq_len base_N =
     (if max_seq_len \<le> 128 then 128
      else if max_seq_len \<le> 256 then 256
      else int32 (int32 (int32 (int32 (max_seq_len + base_N) - 1) sdiv base_N) * base_N))"

definition plan_loop :: "int \<Rightarrow> int \<Rightarrow> bool" where
  "plan_loop seq_len base_N = (seq_len > base_N)"

text \<open>
  What the host code does, in the order it does it. \<open>Configure lp\<close> is the
  configure pass of \<^verbatim>\<open>run_fmha_fp16_sm80\<close> returning, \<open>lp\<close> being the launch
  parameters as it leaves them; \<open>Lock\<close> and \<open>Unlock\<close> are the scope of the
  \<^verbatim>\<open>std::lock_guard\<close> on the generator's mutex; \<open>PhiloxRequest n\<close> is the
  call \<^verbatim>\<open>gen->philox_cuda_state(n)\<close>; \<open>Launch lp\<close> is the second call of
  \<^verbatim>\<open>run_fmha_fp16_sm80\<close>, which dispatches the kernel with \<open>lp\<close>.
\<close>

datatype event =
    Alloc ptr "int list" ScalarType
  | Fill ptr storage
  | Configure Launch_params
  | Lock
  | PhiloxRequest "64 word"
  | Unlock
  | Launch Launch_params

definition alloc_events ::
  "int \<Rightarrow> int \<Rightarrow> int \<Rightarrow> int \<Rightarrow> int \<Rightarrow> bool \<Rightarrow> bool \<Rightarrow> ScalarType \<Rightarrow> event list" where
  "alloc_events n_total num_heads head_size batch_size seq_len loop return_softmax opts =
     [Alloc CTX [n_total, num_heads, head_size] opts,
      Alloc CTX2 [n_total, num_heads, head_size] opts] @
     (if loop then [Alloc O_TMP [n_total, num_heads, head_size] kFloat,
                    Alloc O2_TMP [n_total, num_heads, head_size] kFloat] else []) @
     [Alloc SOFTMAX_LSE [batch_size, num_heads, seq_len] kFloat] @
     (if return_softmax
      then [Alloc S_PTR [batch_size, num_heads, seq_len, seq_len] opts] else [])"

definition fill_events :: "bool \<Rightarrow> bool \<Rightarrow> bool \<Rightarrow> event list" where
  "fill_events zero_tensors loop return_softmax =
     (if zero_tensors
      then [Fill CTX Zeros, Fill CTX2 Zeros, Fill SOFTMAX_LSE NegInfs] @
           (if loop then [Fill O_TMP Zeros] else []) @
           (if loop then [Fill O2_TMP Zeros] else []) @
           (if return_softmax then [Fill S_PTR Zeros] else [])
      else [])"

definition get_generator_or_default ::
  "CUDAGeneratorImpl option \<Rightarrow> CUDAGeneratorImpl \<Rightarrow> CUDAGeneratorImpl" where
  "get_generator_or_default gen_opt default_gen =
     (case gen_opt of Some g \<Rightarrow> g | None \<Rightarrow> default_gen)"

text \<open>
  A failing call is \<open>Inl (e, tr)\<close>: the error, and the events performed before
  the check that raised it (none for the checks of the arguments, the
  allocations and fills for the check inside \<^verbatim>\<open>set_params\<close>).
  The value of a successful call: the returned vector (an \<^verbatim>\<open>at::Tensor\<close> that
  was never assigned is \<open>None\<close>), the two temporaries, the events, and the
  generator the call used, as the call leaves it. The \<open>storage\<close> of a returned
  tensor is what the host code put there before the launch; what the kernel
  then writes is not part of this file.
\<close>

record fwd_out =
  result :: "Tensor option list"
  o_tmp_out :: "Tensor option"
  o2_tmp_out :: "Tensor option"
  trace :: "event list"
  gen_out :: CUDAGeneratorImpl

text \<open>
  The arguments are those of the source, after the parameters of the model:
  \<open>env\<close>, the properties of the current device
  (\<^verbatim>\<open>at::cuda::getCurrentDeviceProperties()\<close>) and the default generator
  (\<^verbatim>\<open>getDefaultCUDAGenerator()\<close>). The constructor of \<^verbatim>\<open>Launch_params\<close> is in
  \<^verbatim>\<open>fmha.h\<close>; it stores its arguments, and \<open>elts_per_thread\<close> starts at 0
  here, the configure pass being what sets it. Failures inside the library
  calls (an allocation that runs out of memory or is given a negative
  dimension, a generator of another device) are not modelled: every
  \<^verbatim>\<open>torch::empty\<close> yields its tensor.
\<close>

definition mha_fwd ::
  "env \<Rightarrow> cudaDeviceProp \<Rightarrow> CUDAGeneratorImpl \<Rightarrow>
   Tensor \<Rightarrow> Tensor \<Rightarrow> real \<Rightarrow> int \<Rightarrow> real \<Rightarrow> bool \<Rightarrow> bool \<Rightarrow> bool \<Rightarrow>
   CUDAGeneratorImpl option \<Rightarrow> (error \<times> event list) + fwd_out" where
  "mha_fwd env dprops default_gen qkvv cu_seqlens p_dropout max_seq_len softmax_scale
       zero_tensors is_causal return_softmax gen_opt =
    (if \<not> (major dprops = 8 \<and> minor dprops \<ge> 0) then Inl (DeviceCapabilityUnsupported, [])
     else let
       is_dropout = (p_dropout > 0);
       launch_params0 = (\<lambda>ps.
         \<lparr>elts_per_thread = 0, props = dprops, lp_is_dropout = is_dropout,
          lp_return_softmax = return_softmax, params = ps\<rparr>)
     in
     if \<not> is_cuda qkvv then Inl (NotCuda, [])
     else if \<not> is_cuda cu_seqlens then Inl (NotCuda, [])
     else if \<not> is_contiguous qkvv then Inl (NotContiguous, [])
     else if \<not> is_contiguous cu_seqlens then Inl (NotContiguous, [])
     else if \<not> dim cu_seqlens = 1 then Inl (BadRank, [])
     else if \<not> dim qkvv = 4 then Inl (BadRank, [])
     else if \<not> sizes qkvv ! THREE_DIM = 4 then Inl (BadPackedCount, [])
     else let
       batch_size = int32 (numel cu_seqlens - 1);
       total = int32 (sizes qkvv ! TOTAL_DIM);
       num_heads = int32 (sizes qkvv ! H_DIM);
       head_size = int32 (sizes qkvv ! D_DIM)
     in
     if \<not> batch_size > 0 then Inl (InvalidBatchLayout, [])
     else if \<not> (head_size = 16 \<or> head_size = 32 \<or> head_size = 64 \<or> head_size = 128)
       then Inl (UnsupportedHeadDim, [])
     else let
       base_N = plan_base_N head_size;
       seq_len = plan_seq_len max_seq_len base_N;
       loop = plan_loop seq_len base_N;
       opts = dtype qkvv;
       ctx = empty_tensor [total, num_heads, head_size] opts CTX;
       ctx2 = empty_tensor [total, num_heads, head_size] opts CTX2;
       o_tmp = (if loop then Some (empty_tensor [total, num_heads, head_size] kFloat O_TMP)
                else None);
       o2_tmp = (if loop then Some (empty_tensor [total, num_heads, head_size] kFloat O2_TMP)
                 else None);
       softmax_lse = empty_tensor [batch_size, num_heads, seq_len] kFloat SOFTMAX_LSE;
       s = (if return_softmax
            then Some (empty_tensor [batch_size, num_heads, seq_len, seq_len] opts S_PTR)
            else None);
       allocs = alloc_events total num_heads head_size batch_size seq_len loop
                  return_softmax opts;
       ctx' = (if zero_tensors then zero_fill ctx else ctx);
       ctx2' = (if zero_tensors then zero_fill ctx2 else ctx2);
       softmax_lse' = (if zero_tensors then fill_neg_inf softmax_lse else softmax_lse);
       o_tmp' = (if zero_tensors \<and> loop then map_option zero_fill o_tmp else o_tmp);
       o2_tmp' = (if zero_tensors \<and> loop then map_option zero_fill o2_tmp else o2_tmp);
       s' = (if zero_tensors \<and> return_softmax then map_option zero_fill s else s);
       fills = fill_events zero_tensors loop return_softmax;
       gen = get_generator_or_default gen_opt default_gen
     in
     case set_params env (size_t batch_size) (size_t seq_len) (size_t num_heads)
            (size_t head_size)
            (Some (data_ptr qkvv)) (Some (data_ptr cu_seqlens)) (Some (data_ptr ctx'))
            (if loop then map_option data_ptr o_tmp' else None)
            None
            (if return_softmax then map_option data_ptr s' else None)
            (Some (data_ptr softmax_lse'))
            None
            p_dropout softmax_scale is_causal
            (if loop then map_option data_ptr o2_tmp' else None)
            (Some (data_ptr ctx2'))
     of Inl e \<Rightarrow> Inl (e, allocs @ fills)
      | Inr ps \<Rightarrow>
         let launch_params1 = run_fmha_fp16_sm80 env (launch_params0 ps) True;
             counter_offset = elts_per_thread launch_params1;
             reserved = philox_cuda_state env gen counter_offset;
             launch_params2 =
               (if is_dropout
                then launch_params1\<lparr>params :=
                       (params launch_params1)\<lparr>philox_args := fst reserved\<rparr>\<rparr>
                else launch_params1);
             gen' = (if is_dropout then snd reserved else gen);
             reserve = (if is_dropout then [Lock, PhiloxRequest counter_offset, Unlock]
                        else [])
         in Inr \<lparr>result = [Some ctx', Some ctx2', Some softmax_lse'] @
                            (if return_softmax then [s'] else []),
                  o_tmp_out = o_tmp',
                  o2_tmp_out = o2_tmp',
                  trace = allocs @ fills @ [Configure launch_params1] @ reserve @
                          [Launch launch_params2],
                  gen_out = gen'\<rparr>)"

subsection \<open>Reading a trace\<close>

fun is_launch :: "event \<Rightarrow> bool" where
  "is_launch (Launch lp) = True"
| "is_launch e = False"

fun is_fill :: "event \<Rightarrow> bool" where
  "is_fill (Fill p v) = True"
| "is_fill e = False"

fun is_alloc_of :: "ptr \<Rightarrow> event \<Rightarrow> bool" where
  "is_alloc_of p (Alloc q shape dt) = (p = q)"
| "is_alloc_of p e = False"

fun is_alloc_or_fill :: "event \<Rightarrow> bool" where
  "is_alloc_or_fill (Alloc p shape dt) = True"
| "is_alloc_or_fill (Fill p v) = True"
| "is_alloc_or_fill e = False"

fun is_generator_event :: "event \<Rightarrow> bool" where
  "is_generator_event Lock = True"
| "is_generator_event (PhiloxRequest n) = True"
| "is_generator_event Unlock = True"
| "is_generator_event e = False"

text \<open>The events that precede the first launch.\<close>

definition before_launch :: "event list \<Rightarrow> event list" where
  "before_launch tr = takeWhile (\<lambda>e. \<not> is_launch e) tr"

subsection \<open>A concrete setting\<close>

text \<open>
  An environment with exact arithmetic, two bytes per half and four per float,
  a configure pass that reports 64 draws per thread, and a generator that hands
  out its offset and advances it by the amount asked for. The batch has two
  sequences of 3 and 5 tokens, one head of dimension 16.
\<close>

definition example_env :: env where
  "example_env =
     \<lparr>get_size_in_bytes = (\<lambda>n dt. case dt of DATA_TYPE_FP16 \<Rightarrow> n * 2 | DATA_TYPE_FP32 \<Rightarrow> n * 4),
      set_alpha = (\<lambda>x dt. word_of_int \<lfloor>x\<rfloor>),
      run_fmha_fp16_sm80 = (\<lambda>lp configure. lp\<lparr>elts_per_thread := 64\<rparr>),
      philox_cuda_state = (\<lambda>g n.
        (\<lparr>philox_seed = seed g, philox_offset = philox_offset_per_thread g\<rparr>,
         g\<lparr>philox_offset_per_thread := philox_offset_per_thread g + n\<rparr>)),
      round_float = (\<lambda>x. x),
      round_double = (\<lambda>x. x)\<rparr>"

definition example_dprops :: cudaDeviceProp where
  "example_dprops = \<lparr>major = 8, minor = 0\<rparr>"

definition example_gen :: CUDAGeneratorImpl where
  "example_gen = \<lparr>seed = 42, philox_offset_per_thread = 0\<rparr>"

definition example_qkvv :: Tensor where
  "example_qkvv =
     \<lparr>sizes = [8, 1, 4, 16], dtype = kHalf, is_cuda = True, is_contiguous = True,
      data_ptr = QKV, storage = Opaque\<rparr>"

definition example_cu_seqlens :: Tensor where
  "example_cu_seqlens =
     \<lparr>sizes = [3], dtype = kInt, is_cuda = True, is_contiguous = True,
      data_ptr = CU_SEQLENS, storage = Ints [0, 3, 8]\<rparr>"

section \<open>Properties\<close>

subsection \<open>Machine arithmetic of the planner\<close>

lemma int32_id: "- (2 ^ 31) \<le> x \<Longrightarrow> x < 2 ^ 31 \<Longrightarrow> int32 x = x"
  unfolding int32_def by (simp add: algebra_simps)

lemma ceil_div_pos:
  fixes m b :: int
  assumes "0 < b" "0 \<le> m"
  shows "(m + b - 1) sdiv b = \<lceil>real_of_int m / real_of_int b\<rceil>"
proof -
  define q where "q = (m + b - 1) div b"
  have s: "(m + b - 1) sdiv b = q"
    using assms by (simp add: signed_divide_int_def sgn_if q_def)
  have e: "q * b + (m + b - 1) mod b = m + b - 1"
    unfolding q_def by simp
  have r: "0 \<le> (m + b - 1) mod b" "(m + b - 1) mod b < b"
    using assms(1) by simp_all
  have lo: "(q - 1) * b < m" and hi: "m \<le> q * b"
    using e r by (simp_all add: algebra_simps)
  have "real_of_int m \<le> real_of_int (q * b)"
    using hi by (simp only: of_int_le_iff)
  then have 1: "real_of_int m / real_of_int b \<le> real_of_int q"
    using assms(1) by (simp add: pos_divide_le_eq)
  have "real_of_int ((q - 1) * b) < real_of_int m"
    using lo by (simp only: of_int_less_iff)
  then have 2: "real_of_int q - 1 < real_of_int m / real_of_int b"
    using assms(1) by (simp add: pos_less_divide_eq)
  show ?thesis
    unfolding s using 1 2 by (simp add: ceiling_unique)
qed

lemma plan_seq_len_in_range:
  assumes "256 < m" "b = 128 \<or> b = 256" "m + b < 2 ^ 31"
  shows "plan_seq_len m b = \<lceil>real_of_int m / real_of_int b\<rceil> * b"
proof -
  have b: "0 < b" "b \<le> 256" using assms(2) by auto
  have 1: "int32 (m + b) = m + b" using assms b by (intro int32_id) auto
  have 2: "int32 (m + b - 1) = m + b - 1" using assms b by (intro int32_id) auto
  have q: "(m + b - 1) sdiv b = (m + b - 1) div b"
    using assms b by (simp add: signed_divide_int_def sgn_if)
  have q0: "0 \<le> (m + b - 1) div b" using assms b by (simp add: pos_imp_zdiv_nonneg_iff)
  have "(m + b - 1) div b * b + (m + b - 1) mod b = m + b - 1" by simp
  moreover have "0 \<le> (m + b - 1) mod b" using b(1) by simp
  ultimately have qb: "(m + b - 1) div b * b \<le> m + b - 1" by linarith
  have qle: "(m + b - 1) div b \<le> (m + b - 1) div b * b"
    using q0 b(1) by (simp add: mult_le_cancel_left1)
  have 3: "int32 ((m + b - 1) sdiv b) = (m + b - 1) sdiv b"
    unfolding q using q0 qle qb assms(3) by (intro int32_id) auto
  have 4: "int32 ((m + b - 1) sdiv b * b) = (m + b - 1) sdiv b * b"
    unfolding q using q0 qle qb assms(3) b by (intro int32_id) auto
  have "plan_seq_len m b = (m + b - 1) sdiv b * b"
    using assms(1) by (simp add: plan_seq_len_def 1 2 3 4)
  also have "(m + b - 1) sdiv b = \<lceil>real_of_int m / real_of_int b\<rceil>"
    using assms(1) b(1) by (intro ceil_div_pos) auto
  finally show ?thesis .
qed


subsection \<open>The planner\<close>

text \<open>
  Claim C1, as amended. For \<open>max_seq_len \<ge> 1\<close>, a head size among 16, 32, 64
  and 128, and \<open>max_seq_len + base_tile_width\<close> within the range of a 32-bit
  \<^verbatim>\<open>int\<close> (so that the rounding expression does not overflow), the planner
  computes \<open>base_tile_width = 128\<close> when the head size is 128 and 256 otherwise;
  \<open>padded_seq_len = 128\<close> when \<open>max_seq_len \<le> 128\<close>, 256 when
  \<open>128 < max_seq_len \<le> 256\<close>, and otherwise
  \<open>ceil(max_seq_len / base_tile_width) * base_tile_width\<close>; and
  \<open>looped = (padded_seq_len > base_tile_width)\<close>.
\<close>

theorem planner_working_shape:
  assumes "1 \<le> max_seq_len" "head_size \<in> {16, 32, 64, 128}"
    "max_seq_len + plan_base_N head_size < 2 ^ 31"
  shows "plan_base_N head_size = (if head_size = 128 then 128 else 256) \<and>
         plan_seq_len max_seq_len (plan_base_N head_size) =
           (if max_seq_len \<le> 128 then 128
            else if max_seq_len \<le> 256 then 256
            else \<lceil>real_of_int max_seq_len / real_of_int (plan_base_N head_size)\<rceil> *
                 plan_base_N head_size) \<and>
         plan_loop (plan_seq_len max_seq_len (plan_base_N head_size)) (plan_base_N head_size) =
           (plan_seq_len max_seq_len (plan_base_N head_size) > plan_base_N head_size)"
proof -
  have b: "plan_base_N head_size = 128 \<or> plan_base_N head_size = 256"
    by (simp add: plan_base_N_def)
  have "plan_seq_len max_seq_len (plan_base_N head_size) =
          \<lceil>real_of_int max_seq_len / real_of_int (plan_base_N head_size)\<rceil> * plan_base_N head_size"
    if "256 < max_seq_len"
    using plan_seq_len_in_range[OF that b assms(3)] .
  moreover have "plan_seq_len max_seq_len (plan_base_N head_size) =
      (if max_seq_len \<le> 128 then 128 else 256)" if "max_seq_len \<le> 256"
    using that by (simp add: plan_seq_len_def)
  ultimately show ?thesis
    by (simp add: plan_base_N_def plan_loop_def)
qed


text \<open>The planner at \<open>max_seq_len = 300\<close> and head size 64: two tiles of 256.\<close>

theorem planner_working_shape_witness:
  "plan_base_N 64 = 256 \<and> plan_seq_len 300 (plan_base_N 64) = 512 \<and>
   plan_loop (plan_seq_len 300 (plan_base_N 64)) (plan_base_N 64)"
proof -
  have h: "(1::int) \<le> 300" "(64::int) \<in> {16, 32, 64, 128}" "300 + plan_base_N 64 < 2 ^ 31"
    by (simp_all add: plan_base_N_def)
  have c: "\<lceil>300 / (256::real)\<rceil> = 2" by (simp add: ceiling_eq_iff)
  note t = planner_working_shape[OF h]
  from t have b: "plan_base_N 64 = 256" by simp
  from t have s: "plan_seq_len 300 256 = 512" unfolding b by (simp add: c)
  from t have l: "plan_loop 512 256" unfolding b s by simp
  show ?thesis unfolding b s using l by simp
qed


text \<open>
  Claim C1 as stated, for every \<open>max_seq_len \<ge> 1\<close>, fails at the largest
  \<^verbatim>\<open>int\<close>: the rounded length would be \<open>2 ^ 31\<close>, which no \<^verbatim>\<open>int\<close> holds,
  and the 32-bit computation yields a negative length.
\<close>

theorem planner_overflow_counterexample:
  "(1::int) \<le> 2147483647 \<and> (16::int) \<in> {16, 32, 64, 128} \<and>
   \<not> (plan_seq_len 2147483647 (plan_base_N 16) =
        (if (2147483647::int) \<le> 128 then 128
         else if (2147483647::int) \<le> 256 then 256
         else \<lceil>real_of_int 2147483647 / real_of_int (plan_base_N 16)\<rceil> * plan_base_N 16))"
proof -
  have v: "plan_seq_len 2147483647 (plan_base_N 16) = - 2147483392"
    by (simp add: plan_seq_len_def plan_base_N_def int32_def signed_divide_int_def)
  have c: "\<lceil>2147483647 / (256::real)\<rceil> = 8388608" by (simp add: ceiling_eq_iff)
  show ?thesis by (simp add: v) (simp add: plan_base_N_def c)
qed

subsection \<open>How a call ends\<close>

lemma set_params_Inl:
  "set_params env b s h d a1 a2 a3 a4 a5 a6 a7 a8 p sc c a9 a10 = Inl e \<Longrightarrow>
   e = InvalidDropoutProbability \<and> \<not> p < 1"
  by (simp add: set_params_def Let_def split: if_splits)

lemma set_params_Inr:
  "set_params env b s h d a1 a2 a3 a4 a5 a6 a7 a8 p sc c a9 a10 = Inr ps \<Longrightarrow> p < 1"
  by (simp add: set_params_def Let_def split: if_splits)

lemma alloc_or_fill_events:
  "list_all is_alloc_or_fill (alloc_events n_total num_heads head_size batch_size seq_len
     loop return_softmax opts)"
  "list_all is_alloc_or_fill (fill_events zero_tensors loop return_softmax)"
  by (simp_all add: alloc_events_def fill_events_def)

text \<open>
  A failing call: the error tells which check failed, all earlier ones having
  passed, and a check of the arguments fails before any event.
\<close>

lemma mha_fwd_Inl:
  assumes "mha_fwd env dprops dg qkvv cu p m sc z c r go = Inl (e, tr)"
  shows "e = DeviceCapabilityUnsupported \<and> tr = [] \<and>
       \<not> (major dprops = 8 \<and> 0 \<le> minor dprops) \<or>
     (major dprops = 8 \<and> 0 \<le> minor dprops) \<and>
     (e = NotCuda \<and> tr = [] \<and> \<not> (is_cuda qkvv \<and> is_cuda cu) \<or>
      (is_cuda qkvv \<and> is_cuda cu) \<and>
      (e = NotContiguous \<and> tr = [] \<and> \<not> (is_contiguous qkvv \<and> is_contiguous cu) \<or>
       (is_contiguous qkvv \<and> is_contiguous cu) \<and>
       (e = BadRank \<and> tr = [] \<and> \<not> (dim cu = 1 \<and> dim qkvv = 4) \<or>
        (dim cu = 1 \<and> dim qkvv = 4) \<and>
        (e = BadPackedCount \<and> tr = [] \<and> sizes qkvv ! THREE_DIM \<noteq> 4 \<or>
         sizes qkvv ! THREE_DIM = 4 \<and>
         (e = InvalidBatchLayout \<and> tr = [] \<and> \<not> 0 < int32 (numel cu - 1) \<or>
          0 < int32 (numel cu - 1) \<and>
          (e = UnsupportedHeadDim \<and> tr = [] \<and>
             int32 (sizes qkvv ! D_DIM) \<notin> {16, 32, 64, 128} \<or>
           int32 (sizes qkvv ! D_DIM) \<in> {16, 32, 64, 128} \<and>
           e = InvalidDropoutProbability \<and> \<not> p < 1 \<and>
           list_all is_alloc_or_fill tr))))))"
  using assms
  by (auto simp: mha_fwd_def Let_def alloc_or_fill_events
      split: if_splits sum.splits dest: set_params_Inl)

text \<open>A successful call: every check passed, and the value is determined.\<close>

lemma mha_fwd_Inr:
  fixes cu qkvv m
  defines "bs \<equiv> int32 (numel cu - 1)"
    and "tot \<equiv> int32 (sizes qkvv ! TOTAL_DIM)"
    and "nh \<equiv> int32 (sizes qkvv ! H_DIM)"
    and "hs \<equiv> int32 (sizes qkvv ! D_DIM)"
  defines "sl \<equiv> plan_seq_len m (plan_base_N hs)"
  defines "loop \<equiv> plan_loop sl (plan_base_N hs)"
  assumes "mha_fwd env dprops dg qkvv cu p m sc z c r go = Inr out"
  shows "\<exists>ps lp1 lp2.
     major dprops = 8 \<and> 0 \<le> minor dprops \<and> is_cuda qkvv \<and> is_cuda cu \<and>
     is_contiguous qkvv \<and> is_contiguous cu \<and> dim cu = 1 \<and> dim qkvv = 4 \<and>
     sizes qkvv ! THREE_DIM = 4 \<and> 0 < bs \<and> hs \<in> {16, 32, 64, 128} \<and> p < 1 \<and>
     set_params env (size_t bs) (size_t sl) (size_t nh) (size_t hs)
       (Some (data_ptr qkvv)) (Some (data_ptr cu)) (Some CTX)
       (if loop then Some O_TMP else None) None (if r then Some S_PTR else None)
       (Some SOFTMAX_LSE) None p sc c (if loop then Some O2_TMP else None) (Some CTX2) = Inr ps \<and>
     lp1 = run_fmha_fp16_sm80 env
             \<lparr>elts_per_thread = 0, props = dprops, lp_is_dropout = (0 < p),
              lp_return_softmax = r, params = ps\<rparr> True \<and>
     lp2 = (if 0 < p
            then lp1\<lparr>params := (params lp1)\<lparr>philox_args :=
                   fst (philox_cuda_state env (get_generator_or_default go dg)
                          (elts_per_thread lp1))\<rparr>\<rparr>
            else lp1) \<and>
     result out =
       [Some ((if z then zero_fill else (\<lambda>t. t)) (empty_tensor [tot, nh, hs] (dtype qkvv) CTX)),
        Some ((if z then zero_fill else (\<lambda>t. t)) (empty_tensor [tot, nh, hs] (dtype qkvv) CTX2)),
        Some ((if z then fill_neg_inf else (\<lambda>t. t)) (empty_tensor [bs, nh, sl] kFloat SOFTMAX_LSE))] @
       (if r then [Some ((if z then zero_fill else (\<lambda>t. t))
                     (empty_tensor [bs, nh, sl, sl] (dtype qkvv) S_PTR))] else []) \<and>
     o_tmp_out out =
       (if loop then Some ((if z then zero_fill else (\<lambda>t. t))
                      (empty_tensor [tot, nh, hs] kFloat O_TMP)) else None) \<and>
     o2_tmp_out out =
       (if loop then Some ((if z then zero_fill else (\<lambda>t. t))
                      (empty_tensor [tot, nh, hs] kFloat O2_TMP)) else None) \<and>
     trace out =
       alloc_events tot nh hs bs sl loop r (dtype qkvv) @ fill_events z loop r @
       [Configure lp1] @
       (if 0 < p then [Lock, PhiloxRequest (elts_per_thread lp1), Unlock] else []) @
       [Launch lp2] \<and>
     gen_out out =
       (if 0 < p
        then snd (philox_cuda_state env (get_generator_or_default go dg) (elts_per_thread lp1))
        else get_generator_or_default go dg)"
proof -
  have ptrs [simp]: "data_ptr (zero_fill t) = data_ptr t" "data_ptr (fill_neg_inf t) = data_ptr t"
    "data_ptr (empty_tensor sh dt q) = q" for t sh dt q
    by (simp_all add: zero_fill_def fill_neg_inf_def empty_tensor_def)
  show ?thesis
    using assms(7) unfolding assms(1-6)
    apply (cases z; cases r; cases "0 < p";
           cases "plan_loop (plan_seq_len m (plan_base_N (int32 (sizes qkvv ! D_DIM))))
                    (plan_base_N (int32 (sizes qkvv ! D_DIM)))")
                   apply (simp_all add: mha_fwd_def Let_def split: if_splits sum.splits)
                   apply (auto dest: set_params_Inr)
    done
qed

lemma mha_fwd_checks:
  assumes "mha_fwd env dprops dg qkvv cu p m sc z c r go = Inr out"
  shows "major dprops = 8" "0 \<le> minor dprops" "is_cuda qkvv" "is_cuda cu"
    "is_contiguous qkvv" "is_contiguous cu" "dim cu = 1" "dim qkvv = 4"
    "sizes qkvv ! THREE_DIM = 4" "0 < int32 (numel cu - 1)"
    "int32 (sizes qkvv ! D_DIM) \<in> {16, 32, 64, 128}" "p < 1"
  using mha_fwd_Inr[OF assms] by blast+

lemma mha_fwd_succeeds:
  assumes "major dprops = 8" "0 \<le> minor dprops" "is_cuda qkvv" "is_cuda cu"
    "is_contiguous qkvv" "is_contiguous cu" "dim cu = 1" "dim qkvv = 4"
    "sizes qkvv ! THREE_DIM = 4" "0 < int32 (numel cu - 1)"
    "int32 (sizes qkvv ! D_DIM) \<in> {16, 32, 64, 128}" "p < 1"
  shows "\<exists>out. mha_fwd env dprops dg qkvv cu p m sc z c r go = Inr out"
proof (cases "mha_fwd env dprops dg qkvv cu p m sc z c r go")
  case (Inl f)
  obtain e tr where f: "f = (e, tr)" by (cases f)
  from mha_fwd_Inl[OF Inl[unfolded f]] assms show ?thesis by simp
next
  case (Inr out)
  then show ?thesis by blast
qed

text \<open>The entry point reads the offsets tensor's metadata only.\<close>

lemma mha_fwd_cu_cong:
  assumes "is_cuda cu = is_cuda cu'" "is_contiguous cu = is_contiguous cu'"
    "sizes cu = sizes cu'" "data_ptr cu = data_ptr cu'"
  shows "mha_fwd env dprops dg qkvv cu p m sc z c r go =
         mha_fwd env dprops dg qkvv cu' p m sc z c r go"
  unfolding mha_fwd_def dim_def numel_def assms ..

subsection \<open>The concrete setting\<close>

lemma example_metadata:
  "major example_dprops = 8" "0 \<le> minor example_dprops"
  "is_cuda example_qkvv" "is_cuda example_cu_seqlens"
  "is_contiguous example_qkvv" "is_contiguous example_cu_seqlens"
  "dim example_cu_seqlens = 1" "dim example_qkvv = 4"
  "sizes example_qkvv ! THREE_DIM = 4" "numel example_cu_seqlens = 3"
  "sizes example_qkvv ! TOTAL_DIM = 8" "sizes example_qkvv ! H_DIM = 1"
  "sizes example_qkvv ! D_DIM = 16" "dtype example_qkvv = kHalf"
  "data_ptr example_qkvv = QKV" "data_ptr example_cu_seqlens = CU_SEQLENS"
  by (simp_all add: example_dprops_def example_qkvv_def example_cu_seqlens_def dim_def
      numel_def THREE_DIM_def TOTAL_DIM_def H_DIM_def D_DIM_def)

lemma int32_small:
  "int32 1 = 1" "int32 2 = 2" "int32 8 = 8" "int32 16 = 16" "int32 0 = 0"
  by (simp_all add: int32_def)

lemma example_call:
  assumes "p < 1"
  shows "\<exists>out. mha_fwd env example_dprops dg example_qkvv example_cu_seqlens p m sc z c r go
           = Inr out"
  by (rule mha_fwd_succeeds) (simp_all add: example_metadata int32_small assms)

subsection \<open>Validation\<close>

text \<open>
  Claim C9, as amended. The forward entry point itself checks the compute
  capability of the current device, before anything else: the call fails with
  \<open>DeviceCapabilityUnsupported\<close> exactly when the device's major version is not
  8 (or its minor version is negative), whatever the other arguments are.
\<close>

theorem device_capability_checked_by_core:
  "(\<exists>tr. mha_fwd env dprops default_gen qkvv cu_seqlens p_dropout max_seq_len softmax_scale
      zero_tensors is_causal return_softmax gen_opt = Inl (DeviceCapabilityUnsupported, tr)) =
   (\<not> (major dprops = 8 \<and> 0 \<le> minor dprops))"
proof
  assume "\<exists>tr. mha_fwd env dprops default_gen qkvv cu_seqlens p_dropout max_seq_len
      softmax_scale zero_tensors is_causal return_softmax gen_opt
        = Inl (DeviceCapabilityUnsupported, tr)"
  then obtain tr where "mha_fwd env dprops default_gen qkvv cu_seqlens p_dropout max_seq_len
      softmax_scale zero_tensors is_causal return_softmax gen_opt
        = Inl (DeviceCapabilityUnsupported, tr)" ..
  from mha_fwd_Inl[OF this] show "\<not> (major dprops = 8 \<and> 0 \<le> minor dprops)" by simp
next
  assume "\<not> (major dprops = 8 \<and> 0 \<le> minor dprops)"
  then have "mha_fwd env dprops default_gen qkvv cu_seqlens p_dropout max_seq_len softmax_scale
      zero_tensors is_causal return_softmax gen_opt = Inl (DeviceCapabilityUnsupported, [])"
    by (simp add: mha_fwd_def)
  then show "\<exists>tr. mha_fwd env dprops default_gen qkvv cu_seqlens p_dropout max_seq_len
      softmax_scale zero_tensors is_causal return_softmax gen_opt
        = Inl (DeviceCapabilityUnsupported, tr)" ..
qed

text \<open>
  Claim C9 as stated, that the core never fails on the device's feature level,
  fails on a device of compute capability 7.5: the call that succeeds on
  capability 8.0 is refused there.
\<close>

theorem device_capability_counterexample:
  "mha_fwd example_env \<lparr>major = 7, minor = 5\<rparr> example_gen example_qkvv example_cu_seqlens
     0 8 1 False False False None = Inl (DeviceCapabilityUnsupported, []) \<and>
   \<not> isl (mha_fwd example_env example_dprops example_gen example_qkvv example_cu_seqlens
     0 8 1 False False False None)"
proof -
  have "\<exists>out. mha_fwd example_env example_dprops example_gen example_qkvv example_cu_seqlens
     0 8 1 False False False None = Inr out"
    by (rule example_call) simp
  then have 2: "\<not> isl (mha_fwd example_env example_dprops example_gen example_qkvv
     example_cu_seqlens 0 8 1 False False False None)"
    by auto
  have 1: "mha_fwd example_env \<lparr>major = 7, minor = 5\<rparr> example_gen example_qkvv
     example_cu_seqlens 0 8 1 False False False None = Inl (DeviceCapabilityUnsupported, [])"
    by (simp add: mha_fwd_def)
  from 1 2 show ?thesis ..
qed

text \<open>
  Claim C2, as amended. The forward entry point accepts a packed QKV tensor
  whose third axis is 4, and no other: for a call that reaches the check (right
  device, both tensors on the device and contiguous, offsets of rank 1, QKV of
  rank 4), the third-axis validation fails exactly when that axis is not 4, so
  a third axis of 3 is rejected.
\<close>

theorem packed_count_validation:
  assumes "major dprops = 8" "0 \<le> minor dprops" "is_cuda qkvv" "is_cuda cu_seqlens"
    "is_contiguous qkvv" "is_contiguous cu_seqlens" "dim cu_seqlens = 1" "dim qkvv = 4"
  shows "(\<exists>tr. mha_fwd env dprops default_gen qkvv cu_seqlens p_dropout max_seq_len
            softmax_scale zero_tensors is_causal return_softmax gen_opt
              = Inl (BadPackedCount, tr)) =
         (sizes qkvv ! THREE_DIM \<noteq> 4)"
proof
  assume "\<exists>tr. mha_fwd env dprops default_gen qkvv cu_seqlens p_dropout max_seq_len
            softmax_scale zero_tensors is_causal return_softmax gen_opt
              = Inl (BadPackedCount, tr)"
  then obtain tr where "mha_fwd env dprops default_gen qkvv cu_seqlens p_dropout max_seq_len
            softmax_scale zero_tensors is_causal return_softmax gen_opt
              = Inl (BadPackedCount, tr)" ..
  from mha_fwd_Inl[OF this] show "sizes qkvv ! THREE_DIM \<noteq> 4" by simp
next
  assume "sizes qkvv ! THREE_DIM \<noteq> 4"
  then have "mha_fwd env dprops default_gen qkvv cu_seqlens p_dropout max_seq_len softmax_scale
            zero_tensors is_causal return_softmax gen_opt = Inl (BadPackedCount, [])"
    using assms by (simp add: mha_fwd_def)
  then show "\<exists>tr. mha_fwd env dprops default_gen qkvv cu_seqlens p_dropout max_seq_len
            softmax_scale zero_tensors is_causal return_softmax gen_opt
              = Inl (BadPackedCount, tr)" ..
qed

text \<open>A third axis of 4 passes the check, a third axis of 5 does not.\<close>

theorem packed_count_validation_witness:
  "(\<nexists>tr. mha_fwd example_env example_dprops example_gen example_qkvv example_cu_seqlens
     0 8 1 False False False None = Inl (BadPackedCount, tr)) \<and>
   (\<exists>tr. mha_fwd example_env example_dprops example_gen (example_qkvv\<lparr>sizes := [8, 1, 5, 16]\<rparr>)
     example_cu_seqlens 0 8 1 False False False None = Inl (BadPackedCount, tr))"
proof -
  have m: "is_cuda (example_qkvv\<lparr>sizes := [8, 1, 5, 16]\<rparr>)"
    "is_contiguous (example_qkvv\<lparr>sizes := [8, 1, 5, 16]\<rparr>)"
    "dim (example_qkvv\<lparr>sizes := [8, 1, 5, 16]\<rparr>) = 4"
    "sizes (example_qkvv\<lparr>sizes := [8, 1, 5, 16]\<rparr>) ! THREE_DIM = 5"
    by (simp_all add: example_qkvv_def dim_def THREE_DIM_def)
  have 1: "\<nexists>tr. mha_fwd example_env example_dprops example_gen example_qkvv example_cu_seqlens
     0 8 1 False False False None = Inl (BadPackedCount, tr)"
    using packed_count_validation[OF example_metadata(1-8),
        of example_env example_gen 0 8 1 False False False None]
    by (simp add: example_metadata)
  have 2: "\<exists>tr. mha_fwd example_env example_dprops example_gen
     (example_qkvv\<lparr>sizes := [8, 1, 5, 16]\<rparr>)
     example_cu_seqlens 0 8 1 False False False None = Inl (BadPackedCount, tr)"
    using packed_count_validation[OF example_metadata(1,2) m(1) example_metadata(4) m(2)
        example_metadata(6,7) m(3), of example_env example_gen 0 8 1 False False False None]
    by (simp add: THREE_DIM_def)
  from 1 2 show ?thesis ..
qed

text \<open>
  Claim C2 as stated, that a third axis of 3 passes the validation, fails on a
  contiguous 4-dimensional tensor of shape \<open>[8, 1, 3, 16]\<close>.
\<close>

theorem packed_count_three_counterexample:
  "dim (example_qkvv\<lparr>sizes := [8, 1, 3, 16]\<rparr>) = 4 \<and>
   is_contiguous (example_qkvv\<lparr>sizes := [8, 1, 3, 16]\<rparr>) \<and>
   sizes (example_qkvv\<lparr>sizes := [8, 1, 3, 16]\<rparr>) ! THREE_DIM = 3 \<and>
   mha_fwd example_env example_dprops example_gen (example_qkvv\<lparr>sizes := [8, 1, 3, 16]\<rparr>)
     example_cu_seqlens 0 8 1 False False False None = Inl (BadPackedCount, [])"
proof -
  have m: "is_cuda (example_qkvv\<lparr>sizes := [8, 1, 3, 16]\<rparr>)"
    "is_contiguous (example_qkvv\<lparr>sizes := [8, 1, 3, 16]\<rparr>)"
    "dim (example_qkvv\<lparr>sizes := [8, 1, 3, 16]\<rparr>) = 4"
    "sizes (example_qkvv\<lparr>sizes := [8, 1, 3, 16]\<rparr>) ! THREE_DIM = 3"
    by (simp_all add: example_qkvv_def dim_def THREE_DIM_def)
  have "mha_fwd example_env example_dprops example_gen (example_qkvv\<lparr>sizes := [8, 1, 3, 16]\<rparr>)
     example_cu_seqlens 0 8 1 False False False None = Inl (BadPackedCount, [])"
    unfolding mha_fwd_def by (simp only: example_metadata m) simp
  with m show ?thesis by blast
qed

text \<open>
  Claim C3, as amended. For a call that reaches the check and an offsets array
  whose length fits an \<^verbatim>\<open>int\<close>, the forward call fails with
  \<open>InvalidBatchLayout\<close> exactly when \<open>batch_size = len(offsets) - 1 \<le> 0\<close>, and
  this is validated before anything is allocated or dispatched: the failing
  call has performed no event, so no allocation, no fill, no configure pass
  and no launch. The values of the offsets are not read: the call ends the
  same way whatever they are, so neither their monotonicity nor their
  agreement with the leading dimension of the QKV buffer is validated.
\<close>

theorem batch_layout_validation:
  assumes "major dprops = 8" "0 \<le> minor dprops" "is_cuda qkvv" "is_cuda cu_seqlens"
    "is_contiguous qkvv" "is_contiguous cu_seqlens" "dim cu_seqlens = 1" "dim qkvv = 4"
    "sizes qkvv ! THREE_DIM = 4" "0 \<le> numel cu_seqlens" "numel cu_seqlens < 2 ^ 31"
  shows "((\<exists>tr. mha_fwd env dprops default_gen qkvv cu_seqlens p_dropout max_seq_len
             softmax_scale zero_tensors is_causal return_softmax gen_opt
               = Inl (InvalidBatchLayout, tr)) =
          (numel cu_seqlens - 1 \<le> 0)) \<and>
         (\<forall>tr. mha_fwd env dprops default_gen qkvv cu_seqlens p_dropout max_seq_len
             softmax_scale zero_tensors is_causal return_softmax gen_opt
               = Inl (InvalidBatchLayout, tr) \<longrightarrow> tr = []) \<and>
         mha_fwd env dprops default_gen qkvv (cu_seqlens\<lparr>storage := offsets\<rparr>) p_dropout
           max_seq_len softmax_scale zero_tensors is_causal return_softmax gen_opt =
         mha_fwd env dprops default_gen qkvv cu_seqlens p_dropout
           max_seq_len softmax_scale zero_tensors is_causal return_softmax gen_opt"
proof -
  have b: "int32 (numel cu_seqlens - 1) = numel cu_seqlens - 1"
    using assms(10,11) by (intro int32_id) auto
  have 1: "(\<exists>tr. mha_fwd env dprops default_gen qkvv cu_seqlens p_dropout max_seq_len
             softmax_scale zero_tensors is_causal return_softmax gen_opt
               = Inl (InvalidBatchLayout, tr)) =
          (numel cu_seqlens - 1 \<le> 0)"
  proof
    assume "\<exists>tr. mha_fwd env dprops default_gen qkvv cu_seqlens p_dropout max_seq_len
             softmax_scale zero_tensors is_causal return_softmax gen_opt
               = Inl (InvalidBatchLayout, tr)"
    then obtain tr where "mha_fwd env dprops default_gen qkvv cu_seqlens p_dropout max_seq_len
             softmax_scale zero_tensors is_causal return_softmax gen_opt
               = Inl (InvalidBatchLayout, tr)" ..
    from mha_fwd_Inl[OF this] show "numel cu_seqlens - 1 \<le> 0" by (simp add: b)
  next
    assume "numel cu_seqlens - 1 \<le> 0"
    then have "mha_fwd env dprops default_gen qkvv cu_seqlens p_dropout max_seq_len
            softmax_scale zero_tensors is_causal return_softmax gen_opt
              = Inl (InvalidBatchLayout, [])"
      using assms(1-9) by (simp add: mha_fwd_def b)
    then show "\<exists>tr. mha_fwd env dprops default_gen qkvv cu_seqlens p_dropout max_seq_len
             softmax_scale zero_tensors is_causal return_softmax gen_opt
               = Inl (InvalidBatchLayout, tr)" ..
  qed
  have 2: "\<forall>tr. mha_fwd env dprops default_gen qkvv cu_seqlens p_dropout max_seq_len
             softmax_scale zero_tensors is_causal return_softmax gen_opt
               = Inl (InvalidBatchLayout, tr) \<longrightarrow> tr = []"
  proof (intro allI impI)
    fix tr
    assume "mha_fwd env dprops default_gen qkvv cu_seqlens p_dropout max_seq_len
             softmax_scale zero_tensors is_causal return_softmax gen_opt
               = Inl (InvalidBatchLayout, tr)"
    from mha_fwd_Inl[OF this] show "tr = []" by simp
  qed
  have 3: "mha_fwd env dprops default_gen qkvv (cu_seqlens\<lparr>storage := offsets\<rparr>) p_dropout
           max_seq_len softmax_scale zero_tensors is_causal return_softmax gen_opt =
         mha_fwd env dprops default_gen qkvv cu_seqlens p_dropout
           max_seq_len softmax_scale zero_tensors is_causal return_softmax gen_opt"
    by (rule mha_fwd_cu_cong) simp_all
  from 1 2 3 show ?thesis by blast
qed

text \<open>
  An offsets array of length 1 (no sequence) is refused with no event
  performed; for the array of length 3 the outcome does not change when the
  offsets are replaced.
\<close>

theorem batch_layout_validation_witness:
  "mha_fwd example_env example_dprops example_gen example_qkvv
     (example_cu_seqlens\<lparr>sizes := [1]\<rparr>) 0 8 1 False False False None
     = Inl (InvalidBatchLayout, []) \<and>
   (\<nexists>tr. mha_fwd example_env example_dprops example_gen example_qkvv
     example_cu_seqlens 0 8 1 False False False None = Inl (InvalidBatchLayout, tr)) \<and>
   mha_fwd example_env example_dprops example_gen example_qkvv
     (example_cu_seqlens\<lparr>storage := Ints [0, 5, 3]\<rparr>) 0 8 1 False False False None =
   mha_fwd example_env example_dprops example_gen example_qkvv
     example_cu_seqlens 0 8 1 False False False None"
proof -
  have m: "is_cuda (example_cu_seqlens\<lparr>sizes := [1]\<rparr>)"
    "is_contiguous (example_cu_seqlens\<lparr>sizes := [1]\<rparr>)"
    "dim (example_cu_seqlens\<lparr>sizes := [1]\<rparr>) = 1"
    "0 \<le> numel (example_cu_seqlens\<lparr>sizes := [1]\<rparr>)"
    "numel (example_cu_seqlens\<lparr>sizes := [1]\<rparr>) < 2 ^ 31"
    "numel (example_cu_seqlens\<lparr>sizes := [1]\<rparr>) = 1"
    by (simp_all add: example_cu_seqlens_def dim_def numel_def)
  have n: "0 \<le> numel example_cu_seqlens" "numel example_cu_seqlens < 2 ^ 31"
    by (simp_all add: example_metadata)
  note s = batch_layout_validation[OF example_metadata(1-3) m(1) example_metadata(5) m(2,3)
        example_metadata(8,9) m(4,5), of example_env example_gen 0 8 1 False False False None]
  from s have "\<exists>tr. mha_fwd example_env example_dprops example_gen example_qkvv
     (example_cu_seqlens\<lparr>sizes := [1]\<rparr>) 0 8 1 False False False None
     = Inl (InvalidBatchLayout, tr)"
    by (simp add: m(6))
  then obtain tr where tr: "mha_fwd example_env example_dprops example_gen example_qkvv
     (example_cu_seqlens\<lparr>sizes := [1]\<rparr>) 0 8 1 False False False None
     = Inl (InvalidBatchLayout, tr)" ..
  from s tr have "tr = []" by blast
  with tr have 1: "mha_fwd example_env example_dprops example_gen example_qkvv
     (example_cu_seqlens\<lparr>sizes := [1]\<rparr>) 0 8 1 False False False None
     = Inl (InvalidBatchLayout, [])"
    by simp
  note t = batch_layout_validation[OF example_metadata(1-9) n,
        of example_env example_gen 0 8 1 False False False None "Ints [0, 5, 3]"]
  from t have 2: "\<nexists>tr. mha_fwd example_env example_dprops example_gen example_qkvv
     example_cu_seqlens 0 8 1 False False False None = Inl (InvalidBatchLayout, tr)"
    by (simp add: example_metadata)
  from t have 3: "mha_fwd example_env example_dprops example_gen example_qkvv
     (example_cu_seqlens\<lparr>storage := Ints [0, 5, 3]\<rparr>) 0 8 1 False False False None =
   mha_fwd example_env example_dprops example_gen example_qkvv
     example_cu_seqlens 0 8 1 False False False None"
    by blast
  from 1 2 3 show ?thesis by blast
qed

text \<open>
  Claim C3 as stated fails on the offsets \<open>[0, 5, 3]\<close>, which decrease and
  declare 3 tokens against a QKV buffer of 8: the call passes every check and
  reaches the launch of the kernel.
\<close>

theorem offsets_not_validated_counterexample:
  "storage (example_cu_seqlens\<lparr>storage := Ints [0, 5, 3]\<rparr>) = Ints [0, 5, 3] \<and>
   \<not> sorted [0, 5, 3 :: int] \<and>
   last [0, 5, 3 :: int] \<noteq> sizes example_qkvv ! TOTAL_DIM \<and>
   \<not> isl (mha_fwd example_env example_dprops example_gen example_qkvv
           (example_cu_seqlens\<lparr>storage := Ints [0, 5, 3]\<rparr>) 0 8 1 False False False None) \<and>
   list_ex is_launch (trace (projr (mha_fwd example_env example_dprops example_gen example_qkvv
           (example_cu_seqlens\<lparr>storage := Ints [0, 5, 3]\<rparr>) 0 8 1 False False False None)))"
proof -
  have e: "mha_fwd example_env example_dprops example_gen example_qkvv
           (example_cu_seqlens\<lparr>storage := Ints [0, 5, 3]\<rparr>) 0 8 1 False False False None =
        mha_fwd example_env example_dprops example_gen example_qkvv
           example_cu_seqlens 0 8 1 False False False None"
    by (rule mha_fwd_cu_cong) simp_all
  have "\<exists>out. mha_fwd example_env example_dprops example_gen example_qkvv
           example_cu_seqlens 0 8 1 False False False None = Inr out"
    by (rule example_call) simp
  then obtain out where out: "mha_fwd example_env example_dprops example_gen example_qkvv
           example_cu_seqlens 0 8 1 False False False None = Inr out"
    by blast
  from mha_fwd_Inr[OF out] have "list_ex is_launch (trace out)" by auto
  then show ?thesis
    unfolding e out by (simp add: example_metadata)
qed

subsection \<open>Parameter setup\<close>

text \<open>
  Claim C5. For every call with \<open>p_dropout < 1\<close>, \<^verbatim>\<open>set_params\<close> succeeds and
  derives the keep probability \<open>1 - p_dropout\<close> (a single precision
  subtraction), the rescale factor \<open>1 / keep_probability\<close> (a single precision
  division), \<open>scale_bmm1\<close> from the caller's softmax scale, \<open>scale_softmax\<close>
  and \<open>scale_bmm2\<close> from 1.0, and \<open>scale_dropout\<close> from the rescale factor,
  each scale encoded by \<^verbatim>\<open>set_alpha\<close> in its precision. For every call with
  \<open>p_dropout \<ge> 1\<close> it fails with \<open>InvalidDropoutProbability\<close>.
\<close>

theorem set_params_scales:
  "(p_dropout < 1 \<longrightarrow>
      (\<exists>ps. set_params env b s h d qkv_packed_d cu_seqlens_d o_packed_d o_tmp_d do_packed_d
              s_d softmax_lse_d dsoftmax_sum_d p_dropout softmax_scale is_causal
              o2_tmp_d o2_packed_d = Inr ps \<and>
            params_p_dropout ps = round_float env (1 - p_dropout) \<and>
            rp_dropout ps = round_float env (1 / params_p_dropout ps) \<and>
            scale_bmm1f ps = softmax_scale \<and>
            scale_bmm1 ps = set_alpha env softmax_scale DATA_TYPE_FP16 \<and>
            scale_softmax ps = set_alpha env 1 DATA_TYPE_FP32 \<and>
            scale_bmm2 ps = set_alpha env 1 DATA_TYPE_FP16 \<and>
            scale_dropout ps = set_alpha env (rp_dropout ps) DATA_TYPE_FP16)) \<and>
   (1 \<le> p_dropout \<longrightarrow>
      set_params env b s h d qkv_packed_d cu_seqlens_d o_packed_d o_tmp_d do_packed_d
        s_d softmax_lse_d dsoftmax_sum_d p_dropout softmax_scale is_causal
        o2_tmp_d o2_packed_d = Inl InvalidDropoutProbability)"
  by (simp add: set_params_def Let_def)

text \<open>
  With exact arithmetic, a dropout probability of one half gives the keep
  probability one half and the rescale factor 2; a probability of 1 is refused.
\<close>

theorem set_params_scales_witness:
  "(\<exists>ps. set_params example_env 2 128 1 16 (Some QKV) (Some CU_SEQLENS) (Some CTX) None None
           None (Some SOFTMAX_LSE) None (1 / 2) (1 / 4) False None (Some CTX2) = Inr ps \<and>
         params_p_dropout ps = 1 / 2 \<and> rp_dropout ps = 2 \<and> scale_bmm1f ps = 1 / 4 \<and>
         scale_softmax ps = 1 \<and> scale_bmm2 ps = 1 \<and> scale_dropout ps = 2) \<and>
   set_params example_env 2 128 1 16 (Some QKV) (Some CU_SEQLENS) (Some CTX) None None
     None (Some SOFTMAX_LSE) None 1 (1 / 4) False None (Some CTX2)
     = Inl InvalidDropoutProbability"
proof -
  have e: "round_float example_env = (\<lambda>x. x)" "set_alpha example_env = (\<lambda>x dt. word_of_int \<lfloor>x\<rfloor>)"
    by (simp_all add: example_env_def)
  obtain ps where a: "set_params example_env 2 128 1 16 (Some QKV) (Some CU_SEQLENS) (Some CTX)
        None None None (Some SOFTMAX_LSE) None (1 / 2) (1 / 4) False None (Some CTX2) = Inr ps"
    and k: "params_p_dropout ps = round_float example_env (1 - 1 / 2)"
    and r: "rp_dropout ps = round_float example_env (1 / params_p_dropout ps)"
    and b1: "scale_bmm1f ps = 1 / 4"
    and sm: "scale_softmax ps = set_alpha example_env 1 DATA_TYPE_FP32"
    and b2: "scale_bmm2 ps = set_alpha example_env 1 DATA_TYPE_FP16"
    and sd: "scale_dropout ps = set_alpha example_env (rp_dropout ps) DATA_TYPE_FP16"
    using set_params_scales[of "1 / 2" example_env 2 128 1 16 "Some QKV" "Some CU_SEQLENS"
        "Some CTX" None None None "Some SOFTMAX_LSE" None "1 / 4" False None "Some CTX2"]
    by auto
  have k': "params_p_dropout ps = 1 / 2" unfolding k e by simp
  have r': "rp_dropout ps = 2" unfolding r k' e by simp
  have sm': "scale_softmax ps = 1" unfolding sm e by simp
  have b2': "scale_bmm2 ps = 1" unfolding b2 e by simp
  have sd': "scale_dropout ps = 2" unfolding sd r' e by simp
  have 1: "\<exists>ps. set_params example_env 2 128 1 16 (Some QKV) (Some CU_SEQLENS) (Some CTX) None None
           None (Some SOFTMAX_LSE) None (1 / 2) (1 / 4) False None (Some CTX2) = Inr ps \<and>
         params_p_dropout ps = 1 / 2 \<and> rp_dropout ps = 2 \<and> scale_bmm1f ps = 1 / 4 \<and>
         scale_softmax ps = 1 \<and> scale_bmm2 ps = 1 \<and> scale_dropout ps = 2"
    using a k' r' b1 sm' b2' sd' by blast
  have 2: "set_params example_env 2 128 1 16 (Some QKV) (Some CU_SEQLENS) (Some CTX) None None
     None (Some SOFTMAX_LSE) None 1 (1 / 4) False None (Some CTX2)
     = Inl InvalidDropoutProbability"
    using set_params_scales[of 1 example_env 2 128 1 16 "Some QKV" "Some CU_SEQLENS"
        "Some CTX" None None None "Some SOFTMAX_LSE" None "1 / 4" False None "Some CTX2"]
    by simp
  from 1 2 show ?thesis ..
qed

text \<open>
  Claim C4, as amended. For every \<open>p_dropout\<close> in \<open>[0, 1)\<close>, the quantized
  integer dropout thresholds equal \<open>floor(keep_probability * (2^32 - 1))\<close> for
  the 32-bit draw and \<open>floor(keep_probability * (2^16 - 1))\<close> for the 16-bit
  draw, the keep probability being the single precision \<open>1 - p_dropout\<close> and
  the products being formed in double precision; both fit their unsigned type.
  The rounding operators are taken to be monotone and exact at 0, 1,
  \<open>2^32 - 1\<close> and \<open>2^16 - 1\<close>, as rounding to nearest is.
\<close>

theorem dropout_thresholds:
  assumes "mono (round_float env)" "round_float env 0 = 0" "round_float env 1 = 1"
    "mono (round_double env)" "round_double env 0 = 0"
    "round_double env 4294967295 = 4294967295" "round_double env 65535 = 65535"
    "0 \<le> p_dropout" "p_dropout < 1"
  shows "\<exists>ps. set_params env b s h d qkv_packed_d cu_seqlens_d o_packed_d o_tmp_d do_packed_d
              s_d softmax_lse_d dsoftmax_sum_d p_dropout softmax_scale is_causal
              o2_tmp_d o2_packed_d = Inr ps \<and>
            params_p_dropout ps = round_float env (1 - p_dropout) \<and>
            uint (p_dropout_in_uint ps) =
              \<lfloor>round_double env (params_p_dropout ps * (2 ^ 32 - 1))\<rfloor> \<and>
            uint (p_dropout_in_uint16_t ps) =
              \<lfloor>round_double env (params_p_dropout ps * (2 ^ 16 - 1))\<rfloor>"
proof -
  define keep where "keep = round_float env (1 - p_dropout)"
  have k0: "0 \<le> keep"
    using monoD[OF assms(1), of 0 "1 - p_dropout"] assms(2,9) by (simp add: keep_def)
  have k1: "keep \<le> 1"
    using monoD[OF assms(1), of "1 - p_dropout" 1] assms(3,8) by (simp add: keep_def)
  have a0: "0 \<le> round_double env (keep * 4294967295)"
    using monoD[OF assms(4), of 0 "keep * 4294967295"] assms(5) k0 by simp
  have a1: "round_double env (keep * 4294967295) \<le> 4294967295"
    using monoD[OF assms(4), of "keep * 4294967295" 4294967295] assms(6) k1 by simp
  have b0: "0 \<le> round_double env (keep * 65535)"
    using monoD[OF assms(4), of 0 "keep * 65535"] assms(5) k0 by simp
  have b1: "round_double env (keep * 65535) \<le> 65535"
    using monoD[OF assms(4), of "keep * 65535" 65535] assms(7) k1 by simp
  have fa: "0 \<le> \<lfloor>round_double env (keep * 4294967295)\<rfloor>"
    "\<lfloor>round_double env (keep * 4294967295)\<rfloor> < 2 ^ 32"
    using a0 a1 by (simp_all add: floor_less_iff)
  have fb: "0 \<le> \<lfloor>round_double env (keep * 65535)\<rfloor>"
    "\<lfloor>round_double env (keep * 65535)\<rfloor> < 2 ^ 16"
    using b0 b1 by (simp_all add: floor_less_iff)
  have ua: "uint (word_of_int \<lfloor>round_double env (keep * 4294967295)\<rfloor> :: 32 word) =
      \<lfloor>round_double env (keep * 4294967295)\<rfloor>"
    using fa by (simp add: uint_word_of_int_eq take_bit_int_eq_self)
  have ub: "uint (word_of_int \<lfloor>round_double env (keep * 65535)\<rfloor> :: 16 word) =
      \<lfloor>round_double env (keep * 65535)\<rfloor>"
    using fb by (simp add: uint_word_of_int_eq take_bit_int_eq_self)
  show ?thesis
    using assms(9) ua ub by (simp add: set_params_def Let_def keep_def)
qed

text \<open>
  With exact arithmetic and a dropout probability of one half the thresholds
  are \<open>2^31 - 1\<close> and \<open>2^15 - 1\<close>.
\<close>

theorem dropout_thresholds_witness:
  "\<exists>ps. set_params example_env 2 128 1 16 (Some QKV) (Some CU_SEQLENS) (Some CTX) None None
           None (Some SOFTMAX_LSE) None (1 / 2) (1 / 4) False None (Some CTX2) = Inr ps \<and>
        params_p_dropout ps = 1 / 2 \<and>
        uint (p_dropout_in_uint ps) = 2147483647 \<and>
        uint (p_dropout_in_uint16_t ps) = 32767"
proof -
  have e: "round_float example_env = (\<lambda>x. x)" "round_double example_env = (\<lambda>x. x)"
    by (simp_all add: example_env_def)
  have h: "mono (round_float example_env)" "round_float example_env 0 = 0"
    "round_float example_env 1 = 1" "mono (round_double example_env)"
    "round_double example_env 0 = 0" "round_double example_env 4294967295 = 4294967295"
    "round_double example_env 65535 = 65535" "(0::real) \<le> 1 / 2" "(1 / 2 :: real) < 1"
    by (simp_all add: e mono_def)
  have f: "\<lfloor>4294967295 / (2::real)\<rfloor> = 2147483647" "\<lfloor>65535 / (2::real)\<rfloor> = 32767"
    by (simp_all add: floor_eq_iff)
  obtain ps where a: "set_params example_env 2 128 1 16 (Some QKV) (Some CU_SEQLENS) (Some CTX)
        None None None (Some SOFTMAX_LSE) None (1 / 2) (1 / 4) False None (Some CTX2) = Inr ps"
    and k: "params_p_dropout ps = round_float example_env (1 - 1 / 2)"
    and u: "uint (p_dropout_in_uint ps) =
              \<lfloor>round_double example_env (params_p_dropout ps * (2 ^ 32 - 1))\<rfloor>"
    and v: "uint (p_dropout_in_uint16_t ps) =
              \<lfloor>round_double example_env (params_p_dropout ps * (2 ^ 16 - 1))\<rfloor>"
    using dropout_thresholds[OF h, of 2 128 1 16 "Some QKV" "Some CU_SEQLENS"
        "Some CTX" None None None "Some SOFTMAX_LSE" None "1 / 4" False None "Some CTX2"]
    by blast
  have k': "params_p_dropout ps = 1 / 2" unfolding k e by simp
  have u': "uint (p_dropout_in_uint ps) = 2147483647" unfolding u k' e by (simp add: f)
  have v': "uint (p_dropout_in_uint16_t ps) = 32767" unfolding v k' e by (simp add: f)
  from a k' u' v' show ?thesis by blast
qed

text \<open>
  Claim C4 as stated, with the factors \<open>2^32\<close> and \<open>2^16\<close>, fails at
  \<open>p_dropout = 1/2\<close>, where every floating point operation is exact: the
  thresholds are \<open>2^31 - 1\<close> and \<open>2^15 - 1\<close>, not \<open>2^31\<close> and \<open>2^15\<close>.
\<close>

theorem dropout_thresholds_counterexample:
  "(0::real) \<le> 1 / 2 \<and> (1 / 2 :: real) < 1 \<and>
   \<not> isl (set_params example_env 2 128 1 16 (Some QKV) (Some CU_SEQLENS) (Some CTX) None None
           None (Some SOFTMAX_LSE) None (1 / 2) (1 / 4) False None (Some CTX2)) \<and>
   uint (p_dropout_in_uint (projr (set_params example_env 2 128 1 16 (Some QKV)
           (Some CU_SEQLENS) (Some CTX) None None
           None (Some SOFTMAX_LSE) None (1 / 2) (1 / 4) False None (Some CTX2))))
     \<noteq> \<lfloor>(1 - 1 / 2) * 2 ^ 32 :: real\<rfloor> \<and>
   uint (p_dropout_in_uint16_t (projr (set_params example_env 2 128 1 16 (Some QKV)
           (Some CU_SEQLENS) (Some CTX) None None
           None (Some SOFTMAX_LSE) None (1 / 2) (1 / 4) False None (Some CTX2))))
     \<noteq> \<lfloor>(1 - 1 / 2) * 2 ^ 16 :: real\<rfloor>"
proof -
  have f: "\<lfloor>4294967295 / (2::real)\<rfloor> = 2147483647" "\<lfloor>65535 / (2::real)\<rfloor> = 32767"
    by (simp_all add: floor_eq_iff)
  show ?thesis
    by (simp add: set_params_def Let_def example_env_def f)
qed

subsection \<open>Buffers and results\<close>

lemma example_plan:
  "plan_seq_len 300 (plan_base_N 16) = 512"
  "plan_loop (plan_seq_len 300 (plan_base_N 16)) (plan_base_N 16)"
  "plan_seq_len 8 (plan_base_N 16) = 128"
  "\<not> plan_loop (plan_seq_len 8 (plan_base_N 16)) (plan_base_N 16)"
  "plan_loop 512 (plan_base_N 16)" "\<not> plan_loop 128 (plan_base_N 16)"
  by (simp_all add: plan_seq_len_def plan_base_N_def plan_loop_def int32_def
      signed_divide_int_def)

text \<open>
  Claim C6. For every forward call that reaches the launch with the
  zero-initialization flag set, before the kernel is launched the LogSumExp
  buffer is filled with negative infinity and Context, SecondaryContext, the
  two temporary accumulators (when allocated) and the diagnostic softmax buffer
  (when requested) are filled with zero; with the flag clear no buffer is
  filled and all stay uninitialised.
\<close>

theorem zero_initialization:
  assumes "mha_fwd env dprops default_gen qkvv cu_seqlens p_dropout max_seq_len softmax_scale
             zero_tensors is_causal return_softmax gen_opt = Inr out"
  shows "list_ex is_launch (trace out) \<and>
    (zero_tensors \<longrightarrow>
       Fill SOFTMAX_LSE NegInfs \<in> set (before_launch (trace out)) \<and>
       Fill CTX Zeros \<in> set (before_launch (trace out)) \<and>
       Fill CTX2 Zeros \<in> set (before_launch (trace out)) \<and>
       (o_tmp_out out \<noteq> None \<longrightarrow>
          Fill O_TMP Zeros \<in> set (before_launch (trace out)) \<and>
          map_option storage (o_tmp_out out) = Some Zeros) \<and>
       (o2_tmp_out out \<noteq> None \<longrightarrow>
          Fill O2_TMP Zeros \<in> set (before_launch (trace out)) \<and>
          map_option storage (o2_tmp_out out) = Some Zeros) \<and>
       (return_softmax \<longrightarrow> Fill S_PTR Zeros \<in> set (before_launch (trace out))) \<and>
       map (map_option storage) (result out) =
         [Some Zeros, Some Zeros, Some NegInfs] @
         (if return_softmax then [Some Zeros] else [])) \<and>
    (\<not> zero_tensors \<longrightarrow>
       \<not> list_ex is_fill (trace out) \<and>
       (o_tmp_out out \<noteq> None \<longrightarrow> map_option storage (o_tmp_out out) = Some Uninit) \<and>
       (o2_tmp_out out \<noteq> None \<longrightarrow> map_option storage (o2_tmp_out out) = Some Uninit) \<and>
       map (map_option storage) (result out) =
         [Some Uninit, Some Uninit, Some Uninit] @
         (if return_softmax then [Some Uninit] else []))"
  using mha_fwd_Inr[OF assms]
  apply (elim exE conjE)
  apply (cases zero_tensors; cases return_softmax; cases "0 < p_dropout";
         cases "plan_loop (plan_seq_len max_seq_len (plan_base_N (int32 (sizes qkvv ! D_DIM))))
                  (plan_base_N (int32 (sizes qkvv ! D_DIM)))")
                 apply (simp_all add: alloc_events_def fill_events_def before_launch_def
      zero_fill_def fill_neg_inf_def empty_tensor_def)
  done

text \<open>
  A call in looped mode (\<open>max_seq_len = 300\<close>) that asks for the diagnostic
  buffer: with the flag set everything is filled before the launch, with the
  flag clear nothing is.
\<close>

theorem zero_initialization_witness:
  "(\<exists>out. mha_fwd example_env example_dprops example_gen example_qkvv example_cu_seqlens
            0 300 1 True False True None = Inr out \<and>
          Fill SOFTMAX_LSE NegInfs \<in> set (before_launch (trace out)) \<and>
          Fill CTX Zeros \<in> set (before_launch (trace out)) \<and>
          Fill O_TMP Zeros \<in> set (before_launch (trace out)) \<and>
          Fill S_PTR Zeros \<in> set (before_launch (trace out)) \<and>
          map (map_option storage) (result out) =
            [Some Zeros, Some Zeros, Some NegInfs, Some Zeros]) \<and>
   (\<exists>out. mha_fwd example_env example_dprops example_gen example_qkvv example_cu_seqlens
            0 300 1 False False True None = Inr out \<and>
          \<not> list_ex is_fill (trace out) \<and>
          map (map_option storage) (result out) =
            [Some Uninit, Some Uninit, Some Uninit, Some Uninit])"
proof -
  have "\<exists>out. mha_fwd example_env example_dprops example_gen example_qkvv example_cu_seqlens
            0 300 1 True False True None = Inr out"
    by (rule example_call) simp
  then obtain out where out: "mha_fwd example_env example_dprops example_gen example_qkvv
      example_cu_seqlens 0 300 1 True False True None = Inr out" by blast
  have t: "o_tmp_out out \<noteq> None"
    using mha_fwd_Inr[OF out] by (auto simp: example_metadata int32_small example_plan)
  have 1: "\<exists>out. mha_fwd example_env example_dprops example_gen example_qkvv example_cu_seqlens
            0 300 1 True False True None = Inr out \<and>
          Fill SOFTMAX_LSE NegInfs \<in> set (before_launch (trace out)) \<and>
          Fill CTX Zeros \<in> set (before_launch (trace out)) \<and>
          Fill O_TMP Zeros \<in> set (before_launch (trace out)) \<and>
          Fill S_PTR Zeros \<in> set (before_launch (trace out)) \<and>
          map (map_option storage) (result out) =
            [Some Zeros, Some Zeros, Some NegInfs, Some Zeros]"
    using zero_initialization[OF out] t out by (intro exI[of _ out]) simp
  have "\<exists>out. mha_fwd example_env example_dprops example_gen example_qkvv example_cu_seqlens
            0 300 1 False False True None = Inr out"
    by (rule example_call) simp
  then obtain out' where out': "mha_fwd example_env example_dprops example_gen example_qkvv
      example_cu_seqlens 0 300 1 False False True None = Inr out'" by blast
  have 2: "\<exists>out. mha_fwd example_env example_dprops example_gen example_qkvv example_cu_seqlens
            0 300 1 False False True None = Inr out \<and>
          \<not> list_ex is_fill (trace out) \<and>
          map (map_option storage) (result out) =
            [Some Uninit, Some Uninit, Some Uninit, Some Uninit]"
    using zero_initialization[OF out'] out' by (intro exI[of _ out']) simp
  from 1 2 show ?thesis ..
qed

text \<open>
  Claim C8. For every forward call that returns, the returned collection is
  Context, SecondaryContext and LogSumExp, in that order, of shapes
  \<open>[total, num_heads, head_size]\<close> (twice) and
  \<open>[batch_size, num_heads, padded_seq_len]\<close>, with the probability matrix of
  shape \<open>[batch_size, num_heads, padded_seq_len, padded_seq_len]\<close> appended if
  and only if diagnostics are requested; that buffer is allocated if and only
  if diagnostics are requested.
\<close>

theorem result_assembly:
  fixes cu_seqlens qkvv max_seq_len
  defines "batch_size \<equiv> int32 (numel cu_seqlens - 1)"
    and "n_total \<equiv> int32 (sizes qkvv ! TOTAL_DIM)"
    and "num_heads \<equiv> int32 (sizes qkvv ! H_DIM)"
    and "head_size \<equiv> int32 (sizes qkvv ! D_DIM)"
  defines "seq_len \<equiv> plan_seq_len max_seq_len (plan_base_N head_size)"
  assumes "mha_fwd env dprops default_gen qkvv cu_seqlens p_dropout max_seq_len softmax_scale
             zero_tensors is_causal return_softmax gen_opt = Inr out"
  shows "map (map_option data_ptr) (result out) =
           [Some CTX, Some CTX2, Some SOFTMAX_LSE] @
           (if return_softmax then [Some S_PTR] else []) \<and>
         map (map_option sizes) (result out) =
           [Some [n_total, num_heads, head_size], Some [n_total, num_heads, head_size],
            Some [batch_size, num_heads, seq_len]] @
           (if return_softmax then [Some [batch_size, num_heads, seq_len, seq_len]] else []) \<and>
         list_ex (is_alloc_of S_PTR) (trace out) = return_softmax"
  using mha_fwd_Inr[OF assms(6)] unfolding assms(1-5)
  apply (elim exE conjE)
  apply (cases zero_tensors; cases return_softmax; cases "0 < p_dropout";
         cases "plan_loop (plan_seq_len max_seq_len (plan_base_N (int32 (sizes qkvv ! D_DIM))))
                  (plan_base_N (int32 (sizes qkvv ! D_DIM)))")
                 apply (simp_all add: alloc_events_def fill_events_def
      zero_fill_def fill_neg_inf_def empty_tensor_def)
  done

text \<open>
  The batch of two sequences with \<open>max_seq_len = 300\<close>: the padded length is
  512, and the diagnostic buffer is the fourth result when asked for.
\<close>

theorem result_assembly_witness:
  "(\<exists>out. mha_fwd example_env example_dprops example_gen example_qkvv example_cu_seqlens
            0 300 1 False False True None = Inr out \<and>
          map (map_option data_ptr) (result out) =
            [Some CTX, Some CTX2, Some SOFTMAX_LSE, Some S_PTR] \<and>
          map (map_option sizes) (result out) =
            [Some [8, 1, 16], Some [8, 1, 16], Some [2, 1, 512], Some [2, 1, 512, 512]] \<and>
          list_ex (is_alloc_of S_PTR) (trace out)) \<and>
   (\<exists>out. mha_fwd example_env example_dprops example_gen example_qkvv example_cu_seqlens
            0 300 1 False False False None = Inr out \<and>
          map (map_option data_ptr) (result out) = [Some CTX, Some CTX2, Some SOFTMAX_LSE] \<and>
          \<not> list_ex (is_alloc_of S_PTR) (trace out))"
proof -
  have "\<exists>out. mha_fwd example_env example_dprops example_gen example_qkvv example_cu_seqlens
            0 300 1 False False True None = Inr out"
    by (rule example_call) simp
  then obtain out where out: "mha_fwd example_env example_dprops example_gen example_qkvv
      example_cu_seqlens 0 300 1 False False True None = Inr out" by blast
  have 1: "\<exists>out. mha_fwd example_env example_dprops example_gen example_qkvv example_cu_seqlens
            0 300 1 False False True None = Inr out \<and>
          map (map_option data_ptr) (result out) =
            [Some CTX, Some CTX2, Some SOFTMAX_LSE, Some S_PTR] \<and>
          map (map_option sizes) (result out) =
            [Some [8, 1, 16], Some [8, 1, 16], Some [2, 1, 512], Some [2, 1, 512, 512]] \<and>
          list_ex (is_alloc_of S_PTR) (trace out)"
    using result_assembly[OF out] out
    by (intro exI[of _ out]) (simp add: example_metadata int32_small example_plan)
  have "\<exists>out. mha_fwd example_env example_dprops example_gen example_qkvv example_cu_seqlens
            0 300 1 False False False None = Inr out"
    by (rule example_call) simp
  then obtain out' where out': "mha_fwd example_env example_dprops example_gen example_qkvv
      example_cu_seqlens 0 300 1 False False False None = Inr out'" by blast
  have 2: "\<exists>out. mha_fwd example_env example_dprops example_gen example_qkvv example_cu_seqlens
            0 300 1 False False False None = Inr out \<and>
          map (map_option data_ptr) (result out) = [Some CTX, Some CTX2, Some SOFTMAX_LSE] \<and>
          \<not> list_ex (is_alloc_of S_PTR) (trace out)"
    using result_assembly[OF out'] out' by (intro exI[of _ out']) simp
  from 1 2 show ?thesis ..
qed

subsection \<open>The generator\<close>

lemma alloc_or_fill_not_generator:
  "list_all is_alloc_or_fill tr \<Longrightarrow> filter is_generator_event tr = []"
proof (induction tr)
  case Nil
  show ?case by simp
next
  case (Cons e tr)
  then show ?case by (cases e) simp_all
qed

text \<open>The trace of a successful call, with the allocations and fills as one prefix.\<close>

lemma mha_fwd_trace:
  assumes "mha_fwd env dprops dg qkvv cu p m sc z c r go = Inr out"
  shows "\<exists>pre lp0 lp1 lp2.
           list_all is_alloc_or_fill pre \<and>
           lp1 = run_fmha_fp16_sm80 env lp0 True \<and>
           lp2 = (if 0 < p
                  then lp1\<lparr>params := (params lp1)\<lparr>philox_args :=
                         fst (philox_cuda_state env (get_generator_or_default go dg)
                                (elts_per_thread lp1))\<rparr>\<rparr>
                  else lp1) \<and>
           trace out = pre @ [Configure lp1] @
             (if 0 < p then [Lock, PhiloxRequest (elts_per_thread lp1), Unlock] else []) @
             [Launch lp2] \<and>
           gen_out out =
             (if 0 < p
              then snd (philox_cuda_state env (get_generator_or_default go dg)
                          (elts_per_thread lp1))
              else get_generator_or_default go dg)"
proof -
  from mha_fwd_Inr[OF assms] obtain ps lp1 lp2 where
    lp1: "lp1 = run_fmha_fp16_sm80 env
             \<lparr>elts_per_thread = 0, props = dprops, lp_is_dropout = (0 < p),
              lp_return_softmax = r, params = ps\<rparr> True"
    and lp2: "lp2 = (if 0 < p
            then lp1\<lparr>params := (params lp1)\<lparr>philox_args :=
                   fst (philox_cuda_state env (get_generator_or_default go dg)
                          (elts_per_thread lp1))\<rparr>\<rparr>
            else lp1)"
    and tr: "trace out =
       alloc_events (int32 (sizes qkvv ! TOTAL_DIM)) (int32 (sizes qkvv ! H_DIM))
         (int32 (sizes qkvv ! D_DIM)) (int32 (numel cu - 1))
         (plan_seq_len m (plan_base_N (int32 (sizes qkvv ! D_DIM))))
         (plan_loop (plan_seq_len m (plan_base_N (int32 (sizes qkvv ! D_DIM))))
            (plan_base_N (int32 (sizes qkvv ! D_DIM))))
         r (dtype qkvv) @
       fill_events z
         (plan_loop (plan_seq_len m (plan_base_N (int32 (sizes qkvv ! D_DIM))))
            (plan_base_N (int32 (sizes qkvv ! D_DIM))))
         r @
       [Configure lp1] @
       (if 0 < p then [Lock, PhiloxRequest (elts_per_thread lp1), Unlock] else []) @
       [Launch lp2]"
    and g: "gen_out out =
       (if 0 < p
        then snd (philox_cuda_state env (get_generator_or_default go dg)
                    (elts_per_thread lp1))
        else get_generator_or_default go dg)"
    by blast
  define pre where "pre =
       alloc_events (int32 (sizes qkvv ! TOTAL_DIM)) (int32 (sizes qkvv ! H_DIM))
         (int32 (sizes qkvv ! D_DIM)) (int32 (numel cu - 1))
         (plan_seq_len m (plan_base_N (int32 (sizes qkvv ! D_DIM))))
         (plan_loop (plan_seq_len m (plan_base_N (int32 (sizes qkvv ! D_DIM))))
            (plan_base_N (int32 (sizes qkvv ! D_DIM))))
         r (dtype qkvv) @
       fill_events z
         (plan_loop (plan_seq_len m (plan_base_N (int32 (sizes qkvv ! D_DIM))))
            (plan_base_N (int32 (sizes qkvv ! D_DIM))))
         r"
  have 1: "trace out = pre @ [Configure lp1] @
             (if 0 < p then [Lock, PhiloxRequest (elts_per_thread lp1), Unlock] else []) @
             [Launch lp2]"
    unfolding tr pre_def by simp
  have 2: "list_all is_alloc_or_fill pre"
    unfolding pre_def by (simp add: alloc_or_fill_events)
  from 2 lp1 lp2 1 g show ?thesis by blast
qed

text \<open>
  Claim C7, as amended. For every forward call with \<open>p_dropout > 0\<close> that
  reaches the launch, the generator's counter is reserved exactly once, under
  the generator's mutex and before the kernel is dispatched: after the
  allocations and fills the trace is the configure pass, the lock, one call of
  \<^verbatim>\<open>philox_cuda_state\<close>, the unlock and the launch. The amount reserved, the
  increment that call is given, is the \<open>elts_per_thread\<close> the configure pass
  reported; the generator is left as that one call leaves it and the launch
  receives the state it handed out. A call with \<open>p_dropout \<le> 0\<close> does not
  touch the counter: it neither locks the generator nor calls it, and leaves
  it as it was.
\<close>

theorem counter_reservation:
  assumes "mha_fwd env dprops default_gen qkvv cu_seqlens p_dropout max_seq_len softmax_scale
             zero_tensors is_causal return_softmax gen_opt = Inr out"
  shows "(0 < p_dropout \<longrightarrow>
           (\<exists>pre lp0 lp1 lp2.
              trace out = pre @ [Configure lp1, Lock, PhiloxRequest (elts_per_thread lp1),
                                 Unlock, Launch lp2] \<and>
              list_all is_alloc_or_fill pre \<and>
              lp1 = run_fmha_fp16_sm80 env lp0 True \<and>
              gen_out out =
                snd (philox_cuda_state env (get_generator_or_default gen_opt default_gen)
                       (elts_per_thread lp1)) \<and>
              philox_args (params lp2) =
                fst (philox_cuda_state env (get_generator_or_default gen_opt default_gen)
                       (elts_per_thread lp1)))) \<and>
         (p_dropout \<le> 0 \<longrightarrow>
            filter is_generator_event (trace out) = [] \<and>
            gen_out out = get_generator_or_default gen_opt default_gen)"
proof -
  from mha_fwd_trace[OF assms(1)] obtain pre lp0 lp1 lp2 where
    pre: "list_all is_alloc_or_fill pre"
    and lp1: "lp1 = run_fmha_fp16_sm80 env lp0 True"
    and lp2: "lp2 = (if 0 < p_dropout
            then lp1\<lparr>params := (params lp1)\<lparr>philox_args :=
                   fst (philox_cuda_state env (get_generator_or_default gen_opt default_gen)
                          (elts_per_thread lp1))\<rparr>\<rparr>
            else lp1)"
    and tr: "trace out = pre @ [Configure lp1] @
       (if 0 < p_dropout then [Lock, PhiloxRequest (elts_per_thread lp1), Unlock] else []) @
       [Launch lp2]"
    and g: "gen_out out =
       (if 0 < p_dropout
        then snd (philox_cuda_state env (get_generator_or_default gen_opt default_gen)
                    (elts_per_thread lp1))
        else get_generator_or_default gen_opt default_gen)"
    by blast
  have a: "\<exists>pre lp0 lp1 lp2.
              trace out = pre @ [Configure lp1, Lock, PhiloxRequest (elts_per_thread lp1),
                                 Unlock, Launch lp2] \<and>
              list_all is_alloc_or_fill pre \<and>
              lp1 = run_fmha_fp16_sm80 env lp0 True \<and>
              gen_out out =
                snd (philox_cuda_state env (get_generator_or_default gen_opt default_gen)
                       (elts_per_thread lp1)) \<and>
              philox_args (params lp2) =
                fst (philox_cuda_state env (get_generator_or_default gen_opt default_gen)
                       (elts_per_thread lp1))"
    if p: "0 < p_dropout"
  proof -
    have 1: "trace out = pre @ [Configure lp1, Lock, PhiloxRequest (elts_per_thread lp1),
                                Unlock, Launch lp2]"
      unfolding tr using p by simp
    have 3: "gen_out out =
               snd (philox_cuda_state env (get_generator_or_default gen_opt default_gen)
                      (elts_per_thread lp1))"
      using g p by simp
    have 4: "philox_args (params lp2) =
               fst (philox_cuda_state env (get_generator_or_default gen_opt default_gen)
                      (elts_per_thread lp1))"
      using lp2 p by simp
    from 1 pre lp1 3 4 show ?thesis by blast
  qed
  have b: "filter is_generator_event (trace out) = [] \<and>
           gen_out out = get_generator_or_default gen_opt default_gen"
    if p: "p_dropout \<le> 0"
  proof -
    have np: "\<not> 0 < p_dropout" using p by simp
    have 1: "filter is_generator_event (trace out) = []"
      unfolding tr using np by (simp add: alloc_or_fill_not_generator[OF pre])
    have 2: "gen_out out = get_generator_or_default gen_opt default_gen"
      using g np by simp
    from 1 2 show ?thesis ..
  qed
  from a b show ?thesis by blast
qed

text \<open>
  With a dropout probability of one half, a configure pass that reports 64
  draws and a generator at offset 0: one call for 64 between lock and unlock,
  and the generator ends at offset 64. With a dropout probability of 0 the
  generator stays at offset 0.
\<close>

theorem counter_reservation_witness:
  "(\<exists>out. mha_fwd example_env example_dprops example_gen example_qkvv example_cu_seqlens
           (1 / 2) 8 1 False False False None = Inr out \<and>
         filter is_generator_event (trace out) = [Lock, PhiloxRequest 64, Unlock] \<and>
         gen_out out = \<lparr>seed = 42, philox_offset_per_thread = 64\<rparr>) \<and>
   (\<exists>out. mha_fwd example_env example_dprops example_gen example_qkvv example_cu_seqlens
           0 8 1 False False False None = Inr out \<and>
         filter is_generator_event (trace out) = [] \<and>
         gen_out out = \<lparr>seed = 42, philox_offset_per_thread = 0\<rparr>)"
proof -
  have "\<exists>out. mha_fwd example_env example_dprops example_gen example_qkvv example_cu_seqlens
           (1 / 2) 8 1 False False False None = Inr out"
    by (rule example_call) simp
  then obtain out where out: "mha_fwd example_env example_dprops example_gen example_qkvv
      example_cu_seqlens (1 / 2) 8 1 False False False None = Inr out" by blast
  have p: "(0::real) < 1 / 2" by simp
  from counter_reservation[OF out] p obtain pre lp0 lp1 lp2 where
    tr: "trace out = pre @ [Configure lp1, Lock, PhiloxRequest (elts_per_thread lp1),
                            Unlock, Launch lp2]"
    and pre: "list_all is_alloc_or_fill pre"
    and lp1: "lp1 = run_fmha_fp16_sm80 example_env lp0 True"
    and g: "gen_out out =
             snd (philox_cuda_state example_env (get_generator_or_default None example_gen)
                    (elts_per_thread lp1))"
    by blast
  have e: "elts_per_thread lp1 = 64"
    unfolding lp1 by (simp add: example_env_def)
  have 1: "filter is_generator_event (trace out) = [Lock, PhiloxRequest 64, Unlock]"
    unfolding tr by (simp add: alloc_or_fill_not_generator[OF pre] e)
  have 2: "gen_out out = \<lparr>seed = 42, philox_offset_per_thread = 64\<rparr>"
    unfolding g e
    by (simp add: example_env_def example_gen_def get_generator_or_default_def)
  have "\<exists>out. mha_fwd example_env example_dprops example_gen example_qkvv example_cu_seqlens
           0 8 1 False False False None = Inr out"
    by (rule example_call) simp
  then obtain out' where out': "mha_fwd example_env example_dprops example_gen example_qkvv
      example_cu_seqlens 0 8 1 False False False None = Inr out'" by blast
  have z: "(0::real) \<le> 0" by simp
  from counter_reservation[OF out'] z have
    3: "filter is_generator_event (trace out') = []"
    and g': "gen_out out' = get_generator_or_default None example_gen"
    by blast+
  have 4: "gen_out out' = \<lparr>seed = 42, philox_offset_per_thread = 0\<rparr>"
    unfolding g' by (simp add: example_gen_def get_generator_or_default_def)
  from out 1 2 out' 3 4 show ?thesis by blast
qed

text \<open>
  Claim C7 as stated, for every forward call, fails on a call without dropout:
  the call reaches the launch without locking the generator or asking it for
  anything, and the generator is as before.
\<close>

theorem counter_reservation_counterexample:
  "\<not> isl (mha_fwd example_env example_dprops example_gen example_qkvv example_cu_seqlens
           0 8 1 False False False None) \<and>
   list_ex is_launch (trace (projr (mha_fwd example_env example_dprops example_gen
           example_qkvv example_cu_seqlens 0 8 1 False False False None))) \<and>
   filter is_generator_event (trace (projr (mha_fwd example_env example_dprops example_gen
           example_qkvv example_cu_seqlens 0 8 1 False False False None))) = [] \<and>
   gen_out (projr (mha_fwd example_env example_dprops example_gen
           example_qkvv example_cu_seqlens 0 8 1 False False False None)) = example_gen"
proof -
  have "\<exists>out. mha_fwd example_env example_dprops example_gen example_qkvv example_cu_seqlens
           0 8 1 False False False None = Inr out"
    by (rule example_call) simp
  then obtain out where out: "mha_fwd example_env example_dprops example_gen example_qkvv
      example_cu_seqlens 0 8 1 False False False None = Inr out" by blast
  from mha_fwd_trace[OF out] obtain pre lp1 lp2 where
    pre: "list_all is_alloc_or_fill pre"
    and tr: "trace out = pre @ [Configure lp1] @
       (if (0::real) < 0 then [Lock, PhiloxRequest (elts_per_thread lp1), Unlock] else []) @
       [Launch lp2]"
    and g: "gen_out out =
       (if (0::real) < 0
        then snd (philox_cuda_state example_env (get_generator_or_default None example_gen)
                    (elts_per_thread lp1))
        else get_generator_or_default None example_gen)"
    by blast
  have 1: "filter is_generator_event (trace out) = []"
    unfolding tr by (simp add: alloc_or_fill_not_generator[OF pre])
  have 2: "list_ex is_launch (trace out)"
    unfolding tr by simp
  have 3: "gen_out out = example_gen"
    unfolding g by (simp add: get_generator_or_default_def)
  show ?thesis unfolding out using 1 2 3 by simp
qed

text \<open>
  Claim C10. For every forward call with \<open>p_dropout = 0\<close> that returns, the
  generator is neither locked nor asked for anything and is left as it was;
  the same call with any other generator, supplied or default, returns the
  same results, temporaries and events (the launch parameters included).
\<close>

theorem no_dropout_leaves_generator:
  assumes "p_dropout = 0"
    and "mha_fwd env dprops default_gen qkvv cu_seqlens p_dropout max_seq_len softmax_scale
             zero_tensors is_causal return_softmax gen_opt = Inr out"
  shows "filter is_generator_event (trace out) = [] \<and>
         gen_out out = get_generator_or_default gen_opt default_gen \<and>
         mha_fwd env dprops default_gen' qkvv cu_seqlens p_dropout max_seq_len softmax_scale
             zero_tensors is_causal return_softmax gen_opt' =
           Inr (out\<lparr>gen_out := get_generator_or_default gen_opt' default_gen'\<rparr>)"
proof -
  have np: "\<not> 0 < p_dropout" using assms(1) by simp
  note c = mha_fwd_checks[OF assms(2)]
  have "\<exists>out'. mha_fwd env dprops default_gen' qkvv cu_seqlens p_dropout max_seq_len
             softmax_scale zero_tensors is_causal return_softmax gen_opt' = Inr out'"
    by (rule mha_fwd_succeeds) (rule c)+
  then obtain out' where out': "mha_fwd env dprops default_gen' qkvv cu_seqlens p_dropout
      max_seq_len softmax_scale zero_tensors is_causal return_softmax gen_opt' = Inr out'"
    by blast
  have e: "out' = out\<lparr>gen_out := get_generator_or_default gen_opt' default_gen'\<rparr>"
    using mha_fwd_Inr[OF assms(2)] mha_fwd_Inr[OF out'] np
    by (intro fwd_out.equality) auto
  from mha_fwd_trace[OF assms(2)] obtain pre lp1 lp2 where
    pre: "list_all is_alloc_or_fill pre"
    and tr: "trace out = pre @ [Configure lp1] @
       (if 0 < p_dropout then [Lock, PhiloxRequest (elts_per_thread lp1), Unlock] else []) @
       [Launch lp2]"
    and g0: "gen_out out =
       (if 0 < p_dropout
        then snd (philox_cuda_state env (get_generator_or_default gen_opt default_gen)
                    (elts_per_thread lp1))
        else get_generator_or_default gen_opt default_gen)"
    by blast
  have g: "gen_out out = get_generator_or_default gen_opt default_gen"
    using g0 np by simp
  have t: "filter is_generator_event (trace out) = []"
    unfolding tr using np by (simp add: alloc_or_fill_not_generator[OF pre])
  from t g out' e show ?thesis by simp
qed

text \<open>
  The call without dropout leaves the default generator alone, and gives the
  same value when another generator, with another seed and offset, is supplied.
\<close>

theorem no_dropout_leaves_generator_witness:
  "\<exists>out. mha_fwd example_env example_dprops example_gen example_qkvv example_cu_seqlens
           0 8 1 False False False None = Inr out \<and>
         filter is_generator_event (trace out) = [] \<and>
         gen_out out = example_gen \<and>
         mha_fwd example_env example_dprops example_gen example_qkvv example_cu_seqlens
           0 8 1 False False False (Some \<lparr>seed = 7, philox_offset_per_thread = 1000\<rparr>) =
         Inr (out\<lparr>gen_out := \<lparr>seed = 7, philox_offset_per_thread = 1000\<rparr>\<rparr>)"
proof -
  have "\<exists>out. mha_fwd example_env example_dprops example_gen example_qkvv example_cu_seqlens
           0 8 1 False False False None = Inr out"
    by (rule example_call) simp
  then obtain out where out: "mha_fwd example_env example_dprops example_gen example_qkvv
      example_cu_seqlens 0 8 1 False False False None = Inr out" by blast
  from no_dropout_leaves_generator[OF refl out, of example_gen
      "Some \<lparr>seed = 7, philox_offset_per_thread = 1000\<rparr>"] out
  show ?thesis
    by (intro exI[of _ out]) (simp add: get_generator_or_default_def)
qed

end
